theory Spec2Isabelle
  imports Complex_Main
begin

section \<open>The n-vector library (nvector.go)\<close>

text \<open>
  The library computes with Go's \<^verbatim>\<open>float64\<close>. The embedding reads every
  \<^verbatim>\<open>float64\<close> as a real number and every arithmetic operation as the exact one:
  \<^verbatim>\<open>math.Pi\<close> is \<open>pi\<close>, \<^verbatim>\<open>math.Sqrt\<close> is \<open>sqrt\<close>, \<^verbatim>\<open>math.Sin\<close> and
  \<^verbatim>\<open>math.Cos\<close> are \<open>sin\<close> and \<open>cos\<close>, \<^verbatim>\<open>math.Cbrt\<close> is \<open>root 3\<close>,
  \<^verbatim>\<open>math.Pow(r, 3)\<close> is \<open>r ^ 3\<close>. Rounding, overflow, signed zeros,
  infinities and NaN are outside this model, so the theorems below speak about the
  control flow and the algebra of the code, not about the last bits of a result.
  Where the Go code would produce NaN (a division \<open>0 / 0\<close>, the square root of a
  negative number) the theorems carry a hypothesis that keeps the input away from
  that case. Where a property is about rounding itself, the code is modelled a second
  time with the rounding of every operation written out: \<^verbatim>\<open>Interpolate\<close>, and the
  line of \<^verbatim>\<open>ToLonLat\<close> that renormalises the longitude.
\<close>

subsection \<open>Data\<close>

text \<open>\<^verbatim>\<open>type Vec3 [3]float64\<close>; \<open>idx0 v\<close> is \<^verbatim>\<open>v[0]\<close>.\<close>

datatype Vec3 = Vec3 (idx0: real) (idx1: real) (idx2: real)

text \<open>\<^verbatim>\<open>type Matrix3 [3][3]float64\<close>; \<open>row0 m\<close> is \<^verbatim>\<open>m[0]\<close>.\<close>

datatype Matrix3 = Matrix3 (row0: Vec3) (row1: Vec3) (row2: Vec3)

text \<open>The structs that embed a \<^verbatim>\<open>Vec3\<close>; \<open>nvVec3 nv\<close> is \<^verbatim>\<open>nv.Vec3\<close>.\<close>

datatype NVector = NVector (nvVec3: Vec3)

datatype PVector = PVector (pvVec3: Vec3)

record LonLat =
  Lon :: real
  Lat :: real

text \<open>The fields \<^verbatim>\<open>a\<close> and \<^verbatim>\<open>b\<close> of \<^verbatim>\<open>Ellipsoid\<close>.\<close>

record Ellipsoid =
  ellps_a :: real
  ellps_b :: real

text \<open>
  The two error types. A Go function returning \<^verbatim>\<open>(T, error)\<close> is modelled as a
  pair whose second component is \<open>None\<close> for \<^verbatim>\<open>nil\<close>.
\<close>

datatype error = InvalidLatitudeError real | NoIntersectionError

subsection \<open>The functions of package math that the code calls\<close>

text \<open>
  \<^verbatim>\<open>math.Mod(x, y)\<close> is the C \<^verbatim>\<open>fmod\<close>: \<open>x - n * y\<close> where \<open>n\<close> is \<open>x / y\<close>
  truncated towards zero, so that the sign of the result agrees with that of \<open>x\<close>.
  Both call sites pass a non-zero constant as \<open>y\<close>.
\<close>

definition math_Mod :: "real \<Rightarrow> real \<Rightarrow> real" where
  "math_Mod x y = x - y * of_int (if 0 \<le> x / y then \<lfloor>x / y\<rfloor> else \<lceil>x / y\<rceil>)"

text \<open>
  \<^verbatim>\<open>math.Atan2(y, x)\<close>: the angle of the point \<open>(x, y)\<close>, in \<open>(-pi, pi]\<close>, with the
  special cases of the package's documentation that exist without signed zeros:
  \<open>Atan2(0, x) = 0\<close> for \<open>x \<ge> 0\<close>, \<open>Atan2(0, x) = pi\<close> for \<open>x < 0\<close>,
  \<open>Atan2(y, 0) = pi/2\<close> for \<open>y > 0\<close> and \<open>-pi/2\<close> for \<open>y < 0\<close>.
\<close>

definition math_Atan2 :: "real \<Rightarrow> real \<Rightarrow> real" where
  "math_Atan2 y x =
     (if 0 < x then arctan (y / x)
      else if x < 0 then (if 0 \<le> y then arctan (y / x) + pi else arctan (y / x) - pi)
      else if 0 < y then pi / 2
      else if y < 0 then - (pi / 2)
      else 0)"

subsection \<open>Linear algebra primitives\<close>

definition cross :: "Vec3 \<Rightarrow> Vec3 \<Rightarrow> Vec3" where
  "cross u v = Vec3 (idx1 u * idx2 v - idx2 u * idx1 v)
                    (idx2 u * idx0 v - idx0 u * idx2 v)
                    (idx0 u * idx1 v - idx1 u * idx0 v)"

definition dot :: "Vec3 \<Rightarrow> Vec3 \<Rightarrow> real" where
  "dot u v = idx0 u * idx0 v + idx1 u * idx1 v + idx2 u * idx2 v"

definition Magnitude :: "Vec3 \<Rightarrow> real" where
  "Magnitude v = sqrt (idx0 v * idx0 v + idx1 v * idx1 v + idx2 v * idx2 v)"

definition Mult :: "Matrix3 \<Rightarrow> Vec3 \<Rightarrow> Vec3" where
  "Mult m v = Vec3
     (idx0 v * idx0 (row0 m) + idx1 v * idx1 (row0 m) + idx2 v * idx2 (row0 m))
     (idx0 v * idx0 (row1 m) + idx1 v * idx1 (row1 m) + idx2 v * idx2 (row1 m))
     (idx0 v * idx0 (row2 m) + idx1 v * idx1 (row2 m) + idx2 v * idx2 (row2 m))"

definition Transpose :: "Matrix3 \<Rightarrow> Matrix3" where
  "Transpose m = Matrix3
     (Vec3 (idx0 (row0 m)) (idx0 (row1 m)) (idx0 (row2 m)))
     (Vec3 (idx1 (row0 m)) (idx1 (row1 m)) (idx1 (row2 m)))
     (Vec3 (idx2 (row0 m)) (idx2 (row1 m)) (idx2 (row2 m)))"

subsection \<open>LonLat\<close>

text \<open>
  \<^verbatim>\<open>NewLonLat\<close> returns a pointer and an error. On the error path the pointer is
  \<^verbatim>\<open>new(LonLat)\<close>, the zero value; the longitude has been normalised before the
  latitude is looked at, and is dropped there.
\<close>

definition NewLonLat :: "real \<Rightarrow> real \<Rightarrow> LonLat \<times> error option" where
  "NewLonLat londeg latdeg =
     (let lon = londeg * pi / 180;
          lat = latdeg * pi / 180;
          lon = math_Mod (lon + pi) (2 * pi) - pi
      in if lat < - 0.5 * pi \<or> lat > 0.5 * pi
         then (\<lparr>Lon = 0, Lat = 0\<rparr>, Some (InvalidLatitudeError latdeg))
         else (\<lparr>Lon = lon, Lat = lat\<rparr>, None))"

definition LonLat_ToNVector :: "LonLat \<Rightarrow> NVector" where
  "LonLat_ToNVector ll =
     (let z = sin (Lat ll);
          y = sin (Lon ll) * cos (Lat ll);
          x = cos (Lon ll) * cos (Lat ll)
      in NVector (Vec3 x y z))"

subsection \<open>NVector and PVector\<close>

definition NVector_ToLonLat :: "NVector \<Rightarrow> LonLat" where
  "NVector_ToLonLat nv =
     (let v = nvVec3 nv;
          lat = math_Atan2 (idx2 v) (sqrt (idx0 v * idx0 v + idx1 v * idx1 v));
          lon = math_Atan2 (idx1 v) (idx0 v);
          lon = math_Mod (lon + 0.5 * pi) pi - 0.5 * pi
      in \<lparr>Lon = lon, Lat = lat\<rparr>)"

definition NVector_ToPVector :: "NVector \<Rightarrow> Ellipsoid \<Rightarrow> PVector" where
  "NVector_ToPVector nv ellps =
     (let v = nvVec3 nv;
          absq = ellps_a ellps * ellps_a ellps / (ellps_b ellps * ellps_b ellps);
          coeff = ellps_b ellps /
                  sqrt (idx2 v * idx2 v + absq * idx1 v * idx1 v + absq * idx0 v * idx0 v)
      in PVector (Vec3 (coeff * absq * idx0 v) (coeff * absq * idx1 v) (coeff * idx2 v)))"

definition PVector_ToNVector :: "PVector \<Rightarrow> Ellipsoid \<Rightarrow> NVector" where
  "PVector_ToNVector pv ellps =
     (let pvec = pvVec3 pv;
          eccen = sqrt (1 - ellps_b ellps * ellps_b ellps / (ellps_a ellps * ellps_a ellps));
          eccen2 = eccen * eccen;
          eccen4 = eccen2 * eccen2;
          a2 = ellps_a ellps * ellps_a ellps;
          q = (1 - eccen2) / a2 * idx2 pvec * idx2 pvec;
          p = (idx1 pvec * idx1 pvec + idx0 pvec * idx0 pvec) / a2;
          r = (p + q - eccen4) / 6;
          s = eccen4 * p * q / (4 * r ^ 3);
          t = root 3 (1 + s + sqrt (s * (2 + s)));
          u = r * (1 + t + 1 / t);
          v = sqrt (u * u + eccen4 * q);
          w = 0.5 * eccen2 * (u + v - q) / v;
          k = sqrt (u + v + w * w) - w;
          d = k * sqrt (idx1 pvec * idx1 pvec + idx0 pvec * idx0 pvec) / (k + eccen2);
          coeff = 1 / sqrt (d * d + idx2 pvec * idx2 pvec);
          kke2 = k / (k + eccen2)
      in NVector (Vec3 (- coeff * kke2 * idx0 pvec)
                       (- coeff * kke2 * idx1 pvec)
                       (coeff * idx2 pvec)))"

subsection \<open>The rotation frame\<close>

definition RotationMatrix :: "NVector \<Rightarrow> Matrix3" where
  "RotationMatrix nv =
     (let east = cross (Vec3 0 0 1) (nvVec3 nv);
          north = cross (nvVec3 nv) east;
          a = idx0 north / Magnitude north;
          b = idx0 east / Magnitude east;
          c = - idx0 (nvVec3 nv);
          d = idx1 north / Magnitude north;
          e = idx1 east / Magnitude east;
          f = - idx1 (nvVec3 nv);
          g = idx2 north / Magnitude north;
          h = idx2 east / Magnitude east;
          i = - idx2 (nvVec3 nv)
      in Matrix3 (Vec3 a b c) (Vec3 d e f) (Vec3 g h i))"

subsection \<open>Geodesic algorithms\<close>

definition SphericalDistance :: "NVector \<Rightarrow> NVector \<Rightarrow> real \<Rightarrow> real" where
  "SphericalDistance nv nv2 R =
     math_Atan2 (Magnitude (cross (nvVec3 nv) (nvVec3 nv2)))
                (dot (nvVec3 nv) (nvVec3 nv2)) * R"

definition Azimuth :: "NVector \<Rightarrow> NVector \<Rightarrow> Ellipsoid \<Rightarrow> real" where
  "Azimuth nv nv2 ellps =
     (let pv1 = NVector_ToPVector nv ellps;
          pv2 = NVector_ToPVector nv2 ellps;
          delta_E = Vec3 (idx0 (pvVec3 pv2) - idx0 (pvVec3 pv1))
                         (idx1 (pvVec3 pv2) - idx1 (pvVec3 pv1))
                         (idx2 (pvVec3 pv2) - idx2 (pvVec3 pv1));
          rotMat_EN = RotationMatrix nv;
          rotMat_NE = Transpose rotMat_EN;
          delta_N = Mult rotMat_NE delta_E
      in math_Atan2 (idx1 delta_N) (idx0 delta_N))"

definition Forward :: "NVector \<Rightarrow> real \<Rightarrow> real \<Rightarrow> real \<Rightarrow> NVector" where
  "Forward nv az distance radius =
     (let east = cross (nvVec3 nv) (Vec3 0 0 (- 1));
          north = cross (nvVec3 nv) east;
          cos_az = cos az;
          sin_az = sin az;
          vec_az = Vec3 (idx0 north * cos_az + idx0 east * sin_az)
                        (idx1 north * cos_az + idx1 east * sin_az)
                        (idx2 north * cos_az + idx2 east * sin_az);
          sab = distance / radius;
          cos_sab = cos sab;
          sin_sab = sin sab;
          resultant = Vec3 (idx0 (nvVec3 nv) * cos_sab + idx0 vec_az * sin_sab)
                           (idx1 (nvVec3 nv) * cos_sab + idx1 vec_az * sin_sab)
                           (idx2 (nvVec3 nv) * cos_sab + idx2 vec_az * sin_sab)
      in NVector resultant)"

definition interpLinear :: "real \<Rightarrow> real \<Rightarrow> real \<Rightarrow> real \<Rightarrow> real \<Rightarrow> real" where
  "interpLinear x x0 x1 y0 y1 = (x - x0) / (x1 - x0) * (y1 - y0) + y0"

text \<open>The parameter \<^verbatim>\<open>frac\<close> is written \<open>fr\<close>: \<open>frac\<close> is the fractional part in HOL.\<close>

definition Interpolate :: "NVector \<Rightarrow> NVector \<Rightarrow> real \<Rightarrow> NVector" where
  "Interpolate nv nv2 fr =
     NVector (Vec3 (interpLinear fr 0 1 (idx0 (nvVec3 nv)) (idx0 (nvVec3 nv2)))
                   (interpLinear fr 0 1 (idx1 (nvVec3 nv)) (idx1 (nvVec3 nv2)))
                   (interpLinear fr 0 1 (idx2 (nvVec3 nv)) (idx2 (nvVec3 nv2))))"

text \<open>
  \<^verbatim>\<open>Intersection\<close> negates the candidate in place when it lies on the far side from
  \<^verbatim>\<open>nv1a\<close>, copies it into \<^verbatim>\<open>result\<close>, runs the two segment tests, each of which
  can only set \<^verbatim>\<open>err\<close>, and returns the point together with \<^verbatim>\<open>err\<close>.
\<close>

definition Intersection ::
  "NVector \<Rightarrow> NVector \<Rightarrow> NVector \<Rightarrow> NVector \<Rightarrow> NVector \<times> error option" where
  "Intersection nv1a nv1b nv2a nv2b =
     (let normalA = cross (nvVec3 nv1a) (nvVec3 nv1b);
          normalB = cross (nvVec3 nv2a) (nvVec3 nv2b);
          intersection = cross normalA normalB;
          intersection =
            (if dot intersection (nvVec3 nv1a) < 0
             then Vec3 (- idx0 intersection) (- idx1 intersection) (- idx2 intersection)
             else intersection);
          result = NVector intersection;
          err = None;
          dab = SphericalDistance nv1a nv1b 1;
          dai = SphericalDistance nv1a result 1;
          dbi = SphericalDistance nv1b result 1;
          err = (if \<bar>dab - dai - dbi\<bar> > 1 / 10 ^ 9 then Some NoIntersectionError else err);
          dab = SphericalDistance nv2a nv2b 1;
          dai = SphericalDistance nv2a result 1;
          dbi = SphericalDistance nv2b result 1;
          err = (if \<bar>dab - dai - dbi\<bar> > 1 / 10 ^ 9 then Some NoIntersectionError else err)
      in (NVector intersection, err))"

subsection \<open>Interpolate and ToLonLat with the rounding of float64 written out\<close>

text \<open>
  A \<^verbatim>\<open>float64\<close> has a significand of 53 bits, and every arithmetic operation
  returns the representable number nearest to the exact result, a tie going to the even
  significand. \<open>f64_round x\<close> is that number: with \<open>e = \<lfloor>log\<^sub>2 |x|\<rfloor>\<close> the
  representable numbers next to \<open>x\<close> are the multiples of \<open>2 ^ (e - 52)\<close>. The exponent
  is not bounded here, so the model is that of the normal range: no overflow, no
  subnormal numbers; \<open>-0\<close> and \<open>+0\<close> are the one number 0.
\<close>

definition round_half_even :: "real \<Rightarrow> int" where
  "round_half_even m =
     (let f = \<lfloor>m\<rfloor>
      in if m - of_int f < 1 / 2 then f
         else if 1 / 2 < m - of_int f then f + 1
         else if even f then f else f + 1)"

definition f64_round :: "real \<Rightarrow> real" where
  "f64_round x =
     (if x = 0 then 0
      else let e = \<lfloor>log 2 \<bar>x\<bar>\<rfloor> - 52
           in of_int (round_half_even (x / 2 powr of_int e)) * 2 powr of_int e)"

text \<open>A real number is a \<^verbatim>\<open>float64\<close> when rounding leaves it as it is.\<close>

definition is_f64 :: "real \<Rightarrow> bool" where
  "is_f64 x = (f64_round x = x)"

definition is_f64_vec :: "Vec3 \<Rightarrow> bool" where
  "is_f64_vec v = (is_f64 (idx0 v) \<and> is_f64 (idx1 v) \<and> is_f64 (idx2 v))"

text \<open>
  \<^verbatim>\<open>(x-x0)/(x1-x0)*(y1-y0) + y0\<close> on \<^verbatim>\<open>float64\<close> arguments: two subtractions, a
  division, a multiplication and an addition, each rounded. (A compiler that fuses the
  multiplication with the addition rounds once where this rounds twice; for \<open>x = 0\<close>
  and \<open>x = 1\<close> the product is exact and both give the same number.)
\<close>

definition interpLinear_f64 :: "real \<Rightarrow> real \<Rightarrow> real \<Rightarrow> real \<Rightarrow> real \<Rightarrow> real" where
  "interpLinear_f64 x x0 x1 y0 y1 =
     f64_round (f64_round (f64_round (f64_round (x - x0) / f64_round (x1 - x0))
                           * f64_round (y1 - y0)) + y0)"

definition Interpolate_f64 :: "NVector \<Rightarrow> NVector \<Rightarrow> real \<Rightarrow> NVector" where
  "Interpolate_f64 nv nv2 fr =
     NVector (Vec3 (interpLinear_f64 fr 0 1 (idx0 (nvVec3 nv)) (idx0 (nvVec3 nv2)))
                   (interpLinear_f64 fr 0 1 (idx1 (nvVec3 nv)) (idx1 (nvVec3 nv2)))
                   (interpLinear_f64 fr 0 1 (idx2 (nvVec3 nv)) (idx2 (nvVec3 nv2))))"

text \<open>The differences \<open>v\<^sub>i - u\<^sub>i\<close> of the components are all representable.\<close>

definition exact_difference :: "Vec3 \<Rightarrow> Vec3 \<Rightarrow> bool" where
  "exact_difference u v =
     (is_f64 (idx0 v - idx0 u) \<and> is_f64 (idx1 v - idx1 u) \<and> is_f64 (idx2 v - idx2 u))"

text \<open>
  The last line of \<^verbatim>\<open>ToLonLat\<close> that touches the longitude,
  \<^verbatim>\<open>lon = math.Mod((lon+0.5*math.Pi), math.Pi) - 0.5*math.Pi\<close>, on the \<^verbatim>\<open>float64\<close>
  that \<^verbatim>\<open>math.Atan2\<close> returned. The constants \<^verbatim>\<open>0.5*math.Pi\<close> and \<^verbatim>\<open>math.Pi\<close>
  are exact until they meet a \<^verbatim>\<open>float64\<close>, where each is rounded once; the addition
  and the subtraction are rounded; \<^verbatim>\<open>math.Mod\<close> is exact. (The float64 versions of
  \<^verbatim>\<open>math.Sin\<close>, \<^verbatim>\<open>math.Cos\<close> and \<^verbatim>\<open>math.Atan2\<close> are not modelled.)
\<close>

definition ToLonLat_renormalise_f64 :: "real \<Rightarrow> real" where
  "ToLonLat_renormalise_f64 lon =
     f64_round (math_Mod (f64_round (lon + f64_round (0.5 * pi))) (f64_round pi)
                - f64_round (0.5 * pi))"

text \<open>
  The partial sums of the arctangent series, for bounds on \<open>pi\<close> tight enough to round
  it to a \<^verbatim>\<open>float64\<close>.
\<close>

definition arctan_partial :: "real \<Rightarrow> nat \<Rightarrow> real" where
  "arctan_partial x n = (\<Sum>k<n. (- 1) ^ k * (1 / real (k * 2 + 1) * x ^ (k * 2 + 1)))"

subsection \<open>Notions of the specification\<close>

text \<open>
  The on-segment test of the specification: the point \<open>I\<close> lies within the segment from
  \<open>A\<close> to \<open>B\<close> iff \<open>|d(A,B) - d(A,I) - d(B,I)| \<le> 1e-9\<close>, the distances taken on the
  unit sphere.
\<close>

definition within_segment :: "NVector \<Rightarrow> NVector \<Rightarrow> NVector \<Rightarrow> bool" where
  "within_segment A B I =
     (\<bar>SphericalDistance A B 1 - SphericalDistance A I 1 - SphericalDistance B I 1\<bar>
        \<le> 1 / 10 ^ 9)"

text \<open>
  The hemisphere selection of the specification: the candidate \<open>c\<close> is negated when
  \<open>c \<cdot> A1 < 0\<close>.
\<close>

definition hemisphere_select :: "Vec3 \<Rightarrow> Vec3 \<Rightarrow> Vec3" where
  "hemisphere_select c a1 =
     (if dot c a1 < 0 then Vec3 (- idx0 c) (- idx1 c) (- idx2 c) else c)"

text \<open>A vector divided by its magnitude, the negated vector, and a matrix given by its columns.\<close>

definition unit_of :: "Vec3 \<Rightarrow> Vec3" where
  "unit_of u = Vec3 (idx0 u / Magnitude u) (idx1 u / Magnitude u) (idx2 u / Magnitude u)"

definition negated :: "Vec3 \<Rightarrow> Vec3" where
  "negated u = Vec3 (- idx0 u) (- idx1 u) (- idx2 u)"

definition from_columns :: "Vec3 \<Rightarrow> Vec3 \<Rightarrow> Vec3 \<Rightarrow> Matrix3" where
  "from_columns p q r = Matrix3 (Vec3 (idx0 p) (idx0 q) (idx0 r))
                                (Vec3 (idx1 p) (idx1 q) (idx1 r))
                                (Vec3 (idx2 p) (idx2 q) (idx2 r))"

text \<open>
  The rotation matrix as the specification words it, with \<open>east = nv \<times> (0,0,1)\<close>. It is
  compared with \<open>RotationMatrix\<close>, which the code builds from \<open>(0,0,1) \<times> nv\<close>.
\<close>

definition RotationMatrix_claimed :: "NVector \<Rightarrow> Matrix3" where
  "RotationMatrix_claimed nv =
     (let east = cross (nvVec3 nv) (Vec3 0 0 1);
          north = cross (nvVec3 nv) east
      in from_columns (unit_of north) (unit_of east) (negated (nvVec3 nv)))"

section \<open>Properties\<close>

subsection \<open>Vectors\<close>

lemma dot_self_nonneg: "0 \<le> dot v v"
  by (simp add: dot_def)

lemma dot_commute: "dot u v = dot v u"
  by (simp add: dot_def mult.commute)

lemma Magnitude_nonneg: "0 \<le> Magnitude v"
  by (simp add: Magnitude_def)

lemma Magnitude_sqrt_dot: "Magnitude u = sqrt (dot u u)"
  by (simp add: Magnitude_def dot_def)

lemma Magnitude_zero: "Magnitude (Vec3 0 0 0) = 0"
  by (simp add: Magnitude_def)

lemma cross_self: "cross v v = Vec3 0 0 0"
  by (simp add: cross_def)

lemma Magnitude_cross_commute: "Magnitude (cross u v) = Magnitude (cross v u)"
proof -
  have "\<And>x y::real. (x - y) * (x - y) = (y - x) * (y - x)"
    by (simp add: algebra_simps)
  then show ?thesis
    unfolding Magnitude_def cross_def Vec3.sel by (simp add: mult.commute)
qed

lemma dot_unit_of_left: "dot (unit_of u) w = dot u w / Magnitude u"
  by (simp add: dot_def unit_of_def add_divide_distrib)

lemma dot_unit_of_right: "dot w (unit_of u) = dot w u / Magnitude u"
  by (simp add: dot_def unit_of_def add_divide_distrib)

lemma dot_negated_left: "dot (negated u) w = - dot u w"
  by (simp add: dot_def negated_def)

lemma dot_negated_right: "dot w (negated u) = - dot w u"
  by (simp add: dot_def negated_def)

lemma dot_unit_of_self:
  assumes "Magnitude u \<noteq> 0"
  shows "dot (unit_of u) (unit_of u) = 1"
proof -
  have nn: "0 \<le> dot u u" by (rule dot_self_nonneg)
  have "dot (unit_of u) (unit_of u) = dot u u / (Magnitude u * Magnitude u)"
    by (simp add: dot_unit_of_left dot_unit_of_right)
  also have "Magnitude u * Magnitude u = dot u u"
    using nn by (simp add: Magnitude_sqrt_dot)
  also have "dot u u / dot u u = 1"
    using assms nn by (simp add: Magnitude_sqrt_dot)
  finally show ?thesis .
qed

lemma Magnitude_unit_of: "Magnitude u \<noteq> 0 \<Longrightarrow> Magnitude (unit_of u) = 1"
  by (simp add: Magnitude_sqrt_dot[of "unit_of u"] dot_unit_of_self)

lemma Mult_from_columns:
  "Mult (from_columns p q r) w =
     Vec3 (idx0 w * idx0 p + idx1 w * idx0 q + idx2 w * idx0 r)
          (idx0 w * idx1 p + idx1 w * idx1 q + idx2 w * idx1 r)
          (idx0 w * idx2 p + idx1 w * idx2 q + idx2 w * idx2 r)"
  by (simp add: Mult_def from_columns_def)

lemma Mult_Transpose_from_columns:
  "Mult (Transpose (from_columns p q r)) w = Vec3 (dot w p) (dot w q) (dot w r)"
  by (simp add: Mult_def Transpose_def from_columns_def dot_def)

subsection \<open>The functions of package math\<close>

lemma math_Atan2_zero_nonneg: "0 \<le> x \<Longrightarrow> math_Atan2 0 x = 0"
  by (simp add: math_Atan2_def)

lemma math_Atan2_range:
  assumes "0 \<le> y"
  shows "0 \<le> math_Atan2 y x" and "math_Atan2 y x \<le> pi"
proof -
  show "0 \<le> math_Atan2 y x"
  proof (cases "0 < x")
    case True
    then have "0 \<le> y / x" using assms by simp
    then have "0 \<le> arctan (y / x)" by (simp only: zero_le_arctan_iff)
    then show ?thesis using True by (simp add: math_Atan2_def)
  next
    case False
    have "- (pi / 2) < arctan (y / x)" by (rule arctan_lbound)
    then have "0 \<le> arctan (y / x) + pi" using pi_gt_zero by linarith
    then show ?thesis using False assms pi_gt_zero by (auto simp add: math_Atan2_def)
  qed
  show "math_Atan2 y x \<le> pi"
  proof (cases "x < 0")
    case True
    then have "y / x \<le> 0" using assms by (simp add: divide_nonneg_neg)
    then have "arctan (y / x) \<le> 0" by (simp only: arctan_le_zero_iff)
    then show ?thesis using True assms by (simp add: math_Atan2_def)
  next
    case False
    have "arctan (y / x) < pi / 2" by (rule arctan_ubound)
    then have "arctan (y / x) \<le> pi" using pi_gt_zero by linarith
    then show ?thesis using False assms pi_gt_zero by (auto simp add: math_Atan2_def)
  qed
qed

subsection \<open>NewLonLat\<close>

lemma lat_reject_iff:
  "(latdeg * pi / 180 < - 0.5 * pi \<or> latdeg * pi / 180 > 0.5 * pi)
     = (latdeg < - 90 \<or> 90 < latdeg)"
proof -
  have a: "(latdeg * pi / 180 < - 0.5 * pi) = (latdeg < - 90)"
  proof -
    have "(latdeg * pi / 180 < - 0.5 * pi) = (pi * latdeg < pi * (- 90))"
      by (simp add: mult.commute)
    also have "\<dots> = (latdeg < - 90)"
      using pi_gt_zero by (simp only: mult_less_cancel_left_pos)
    finally show ?thesis .
  qed
  have b: "(latdeg * pi / 180 > 0.5 * pi) = (90 < latdeg)"
  proof -
    have "(latdeg * pi / 180 > 0.5 * pi) = (pi * 90 < pi * latdeg)"
      by (simp add: mult.commute)
    also have "\<dots> = (90 < latdeg)"
      using pi_gt_zero by (simp only: mult_less_cancel_left_pos)
    finally show ?thesis .
  qed
  show ?thesis by (simp only: a b)
qed

lemma NewLonLat_rejects_iff:
  "(snd (NewLonLat londeg latdeg) \<noteq> None) = (latdeg < - 90 \<or> 90 < latdeg)"
  unfolding NewLonLat_def Let_def lat_reject_iff by simp

subsection \<open>Intersection\<close>

lemma hemisphere_select_dot: "0 \<le> dot (hemisphere_select c a1) a1"
  by (simp add: hemisphere_select_def dot_def)

lemma Intersection_unfold:
  "Intersection nv1a nv1b nv2a nv2b =
     (let I = NVector (hemisphere_select
                (cross (cross (nvVec3 nv1a) (nvVec3 nv1b)) (cross (nvVec3 nv2a) (nvVec3 nv2b)))
                (nvVec3 nv1a))
      in (I, if within_segment nv1a nv1b I \<and> within_segment nv2a nv2b I then None
             else Some NoIntersectionError))"
  by (simp add: Intersection_def Let_def within_segment_def hemisphere_select_def not_le)

text \<open>
  Claim C1. For all inputs \<open>Intersection\<close> returns the point \<open>I\<close>, the cross product of
  the two plane normals \<open>(nv1a \<times> nv1b) \<times> (nv2a \<times> nv2b)\<close>, negated when its dot product
  with \<open>nv1a\<close> is negative, so that \<open>I \<cdot> nv1a \<ge> 0\<close>. The error is
  \<open>NoIntersectionError\<close> if and only if at least one of the two segments fails the
  on-segment test, and it is absent exactly when both tests pass; the point is returned
  in both cases.
\<close>

theorem Intersection_point_and_error:
  "(let I = NVector (hemisphere_select
                (cross (cross (nvVec3 nv1a) (nvVec3 nv1b)) (cross (nvVec3 nv2a) (nvVec3 nv2b)))
                (nvVec3 nv1a))
    in fst (Intersection nv1a nv1b nv2a nv2b) = I
     \<and> 0 \<le> dot (nvVec3 I) (nvVec3 nv1a)
     \<and> (snd (Intersection nv1a nv1b nv2a nv2b) = Some NoIntersectionError)
         = (\<not> (within_segment nv1a nv1b I \<and> within_segment nv2a nv2b I))
     \<and> (snd (Intersection nv1a nv1b nv2a nv2b) = None)
         = (within_segment nv1a nv1b I \<and> within_segment nv2a nv2b I))"
  by (simp add: Intersection_unfold Let_def hemisphere_select_dot)

subsection \<open>Longitude normalisation in NewLonLat\<close>

text \<open>
  Claim C2. Every accepted input of \<open>NewLonLat\<close> gets a longitude in \<open>[-pi, pi)\<close>, also
  one below \<open>-pi\<close> such as \<open>lonDeg = -190\<close>. The code does not do this:
  \<^verbatim>\<open>math.Mod\<close> keeps the sign of its first argument, so for \<open>lon + pi < 0\<close> the
  longitude stays where it was. \<open>NewLonLat(-190, 0)\<close> is accepted and its longitude is
  \<open>-19 pi / 18\<close>, which is below \<open>-pi\<close>.
\<close>

theorem NewLonLat_minus_190:
  "NewLonLat (- 190) 0 = (\<lparr>Lon = - (19 * pi / 18), Lat = 0\<rparr>, None)
   \<and> - (19 * pi / 18) < - pi"
proof -
  have q: "(- 190 * pi / 180 + pi) / (2 * pi) = - (1 / 36)"
    by (simp add: field_simps)
  have c: "\<lceil>- (1 / 36 :: real)\<rceil> = 0"
    by (simp add: ceiling_eq_iff)
  have m: "math_Mod (- 190 * pi / 180 + pi) (2 * pi) = - 190 * pi / 180 + pi"
    unfolding math_Mod_def q using c by simp
  have "NewLonLat (- 190) 0 = (\<lparr>Lon = - (19 * pi / 18), Lat = 0\<rparr>, None)"
    unfolding NewLonLat_def Let_def m by (simp add: field_simps)
  moreover have "- (19 * pi / 18) < - pi"
    using pi_gt_zero by simp
  ultimately show ?thesis by simp
qed

subsection \<open>The rotation frame\<close>

lemma RotationMatrix_from_columns:
  "RotationMatrix nv =
     (let east = cross (Vec3 0 0 1) (nvVec3 nv);
          north = cross (nvVec3 nv) east
      in from_columns (unit_of north) (unit_of east) (negated (nvVec3 nv)))"
  by (simp add: RotationMatrix_def Let_def from_columns_def unit_of_def negated_def)

lemma east_components: "cross (Vec3 0 0 1) v = Vec3 (- idx1 v) (idx0 v) 0"
  by (simp add: cross_def)

lemma north_components:
  "cross v (cross (Vec3 0 0 1) v) =
     Vec3 (- (idx2 v * idx0 v)) (- (idx2 v * idx1 v)) (idx0 v * idx0 v + idx1 v * idx1 v)"
  by (simp add: cross_def)

lemma east_orth_nv: "dot (cross (Vec3 0 0 1) v) v = 0"
  by (simp add: east_components dot_def)

lemma north_orth_nv: "dot (cross v (cross (Vec3 0 0 1) v)) v = 0"
  by (simp add: north_components dot_def algebra_simps)

lemma north_orth_east: "dot (cross v (cross (Vec3 0 0 1) v)) (cross (Vec3 0 0 1) v) = 0"
  by (simp add: cross_def dot_def algebra_simps)

lemma east_Magnitude_nonzero:
  assumes "idx0 v * idx0 v + idx1 v * idx1 v \<noteq> 0"
  shows "Magnitude (cross (Vec3 0 0 1) v) \<noteq> 0"
  using assms by (simp add: east_components Magnitude_def add.commute)

lemma north_Magnitude_nonzero:
  assumes "idx0 v * idx0 v + idx1 v * idx1 v \<noteq> 0"
  shows "Magnitude (cross v (cross (Vec3 0 0 1) v)) \<noteq> 0"
proof -
  let ?r = "idx0 v * idx0 v + idx1 v * idx1 v"
  have "0 < ?r * ?r"
    using assms not_real_square_gt_zero[of ?r] by blast
  moreover have "0 \<le> (idx2 v * idx0 v) * (idx2 v * idx0 v)
                     + (idx2 v * idx1 v) * (idx2 v * idx1 v)"
    by simp
  ultimately have "0 < (idx2 v * idx0 v) * (idx2 v * idx0 v)
                     + (idx2 v * idx1 v) * (idx2 v * idx1 v) + ?r * ?r"
    by linarith
  then show ?thesis
    by (simp add: north_components Magnitude_def)
qed

text \<open>
  Claim C4, as amended. For every unit n-vector \<open>nv\<close> off the polar axis,
  \<open>RotationMatrix nv\<close> is built from \<open>east = (0,0,1) \<times> nv\<close> (not \<open>nv \<times> (0,0,1)\<close>) and
  \<open>north = nv \<times> east\<close>, each divided by its magnitude: row \<open>i\<close> holds the \<open>i\<close>-th
  components of \<open>(north, east, -nv)\<close>, so column 0 is the unit north vector, column 1 the
  unit east vector and column 2 is \<open>-nv\<close>. The matrix takes North/East/Down components to
  Earth-frame components; its transpose takes the Earth-frame vectors north, east and
  \<open>-nv\<close> to \<open>(1,0,0)\<close>, \<open>(0,1,0)\<close> and \<open>(0,0,1)\<close>.
\<close>

theorem RotationMatrix_columns:
  assumes unit: "dot v v = 1"
    and nonpolar: "idx0 v * idx0 v + idx1 v * idx1 v \<noteq> 0"
  shows "(let east = cross (Vec3 0 0 1) v;
              north = cross v east;
              n = unit_of north; e = unit_of east; d = negated v;
              m = RotationMatrix (NVector v)
          in m = from_columns n e d
           \<and> Magnitude n = 1 \<and> Magnitude e = 1 \<and> Magnitude d = 1
           \<and> Mult m (Vec3 1 0 0) = n \<and> Mult m (Vec3 0 1 0) = e \<and> Mult m (Vec3 0 0 1) = d
           \<and> Mult (Transpose m) n = Vec3 1 0 0
           \<and> Mult (Transpose m) e = Vec3 0 1 0
           \<and> Mult (Transpose m) d = Vec3 0 0 1)"
proof -
  let ?east = "cross (Vec3 0 0 1) v"
  let ?north = "cross v ?east"
  let ?n = "unit_of ?north" and ?e = "unit_of ?east" and ?d = "negated v"
  let ?m = "RotationMatrix (NVector v)"
  have me: "Magnitude ?east \<noteq> 0" by (rule east_Magnitude_nonzero[OF nonpolar])
  have mn: "Magnitude ?north \<noteq> 0" by (rule north_Magnitude_nonzero[OF nonpolar])
  have m: "?m = from_columns ?n ?e ?d"
    by (simp add: RotationMatrix_from_columns Let_def)
  have un: "Magnitude ?n = 1" by (rule Magnitude_unit_of[OF mn])
  have ue: "Magnitude ?e = 1" by (rule Magnitude_unit_of[OF me])
  have ud: "Magnitude ?d = 1"
    using unit by (simp add: Magnitude_sqrt_dot dot_negated_left dot_negated_right)
  have c0: "Mult ?m (Vec3 1 0 0) = ?n" unfolding m by (simp add: Mult_from_columns)
  have c1: "Mult ?m (Vec3 0 1 0) = ?e" unfolding m by (simp add: Mult_from_columns)
  have c2: "Mult ?m (Vec3 0 0 1) = ?d" unfolding m by (simp add: Mult_from_columns)
  have ne: "dot ?n ?e = 0"
    by (simp add: dot_unit_of_left dot_unit_of_right north_orth_east)
  have en: "dot ?e ?n = 0" using ne by (simp add: dot_commute)
  have nv0: "dot ?n v = 0" by (simp add: dot_unit_of_left north_orth_nv)
  have ev0: "dot ?e v = 0" by (simp add: dot_unit_of_left east_orth_nv)
  have vn: "dot v ?n = 0" unfolding dot_commute[of v ?n] by (rule nv0)
  have ve: "dot v ?e = 0" unfolding dot_commute[of v ?e] by (rule ev0)
  have nd: "dot ?n ?d = 0" using nv0 by (simp add: dot_negated_right)
  have ed: "dot ?e ?d = 0" using ev0 by (simp add: dot_negated_right)
  have t0: "Mult (Transpose ?m) ?n = Vec3 1 0 0"
    unfolding m Mult_Transpose_from_columns
    by (simp add: dot_unit_of_self[OF mn] ne nd)
  have t1: "Mult (Transpose ?m) ?e = Vec3 0 1 0"
    unfolding m Mult_Transpose_from_columns
    by (simp add: dot_unit_of_self[OF me] en ed)
  have t2: "Mult (Transpose ?m) ?d = Vec3 0 0 1"
    unfolding m Mult_Transpose_from_columns
    using vn ve unit
    by (simp add: dot_negated_left dot_negated_right)
  show ?thesis
    unfolding Let_def using m un ue ud c0 c1 c2 t0 t1 t2 by simp
qed

text \<open>
  At \<open>nv = (0,1,0)\<close>, longitude 90 degrees on the equator: north is \<open>(0,0,1)\<close>, east is
  \<open>(-1,0,0)\<close>, down is \<open>(0,-1,0)\<close>.
\<close>

theorem RotationMatrix_columns_witness:
  "dot (Vec3 0 1 0) (Vec3 0 1 0) = 1
   \<and> idx0 (Vec3 0 1 0) * idx0 (Vec3 0 1 0) + idx1 (Vec3 0 1 0) * idx1 (Vec3 0 1 0) \<noteq> 0
   \<and> RotationMatrix (NVector (Vec3 0 1 0))
       = Matrix3 (Vec3 0 (- 1) 0) (Vec3 0 0 (- 1)) (Vec3 1 0 0)
   \<and> Mult (Transpose (RotationMatrix (NVector (Vec3 0 1 0)))) (Vec3 0 0 1) = Vec3 1 0 0"
proof -
  have u: "dot (Vec3 0 1 0) (Vec3 0 1 0) = 1"
    by (simp add: dot_def)
  have p: "idx0 (Vec3 0 1 0) * idx0 (Vec3 0 1 0) + idx1 (Vec3 0 1 0) * idx1 (Vec3 0 1 0) \<noteq> 0"
    by simp
  show ?thesis
    using RotationMatrix_columns[OF u p] u p
    by (simp add: Let_def cross_def unit_of_def negated_def Magnitude_def from_columns_def
        Mult_def Transpose_def)
qed

text \<open>
  The claim as stated fails at \<open>nv = (1,0,0)\<close>, longitude 0 on the equator. The code's east
  column is \<open>(0,1,0)\<close> and its north column \<open>(0,0,1)\<close>; with \<open>east = nv \<times> (0,0,1)\<close> they
  would be \<open>(0,-1,0)\<close> and \<open>(0,0,-1)\<close>. And the matrix itself takes the Earth-frame north
  vector \<open>(0,0,1)\<close> to \<open>(-1,0,0)\<close>, not to the North component \<open>(1,0,0)\<close>.
\<close>

theorem RotationMatrix_claimed_counterexample:
  "RotationMatrix (NVector (Vec3 1 0 0)) = Matrix3 (Vec3 0 0 (- 1)) (Vec3 0 1 0) (Vec3 1 0 0)
   \<and> RotationMatrix_claimed (NVector (Vec3 1 0 0))
       = Matrix3 (Vec3 0 0 (- 1)) (Vec3 0 (- 1) 0) (Vec3 (- 1) 0 0)
   \<and> RotationMatrix (NVector (Vec3 1 0 0)) \<noteq> RotationMatrix_claimed (NVector (Vec3 1 0 0))
   \<and> Mult (RotationMatrix (NVector (Vec3 1 0 0))) (Vec3 0 0 1) = Vec3 (- 1) 0 0"
  by (simp add: RotationMatrix_def RotationMatrix_claimed_def Let_def cross_def Magnitude_def
      from_columns_def unit_of_def negated_def Mult_def)

subsection \<open>From a p-vector back to an n-vector\<close>

text \<open>
  Claim C6. For every unit n-vector \<open>nv\<close> and every ellipsoid with \<open>a \<ge> b > 0\<close>, the round
  trip \<open>toNVector(toPVector(nv, e), e)\<close> recovers \<open>nv\<close> within \<open>1e-9\<close> on each component.
  The code does not do this: \<open>PVector_ToNVector\<close> negates the first two components. At
  \<open>nv = (1,0,0)\<close> the round trip returns \<open>(-1,0,0)\<close>, on the unit sphere and on the
  ellipsoid with \<open>a = 2\<close>, \<open>b = 1\<close> alike.
\<close>

theorem PVector_roundtrip_at_1_0_0:
  "PVector_ToNVector (NVector_ToPVector (NVector (Vec3 1 0 0)) \<lparr>ellps_a = 1, ellps_b = 1\<rparr>)
       \<lparr>ellps_a = 1, ellps_b = 1\<rparr> = NVector (Vec3 (- 1) 0 0)
   \<and> PVector_ToNVector (NVector_ToPVector (NVector (Vec3 1 0 0)) \<lparr>ellps_a = 2, ellps_b = 1\<rparr>)
       \<lparr>ellps_a = 2, ellps_b = 1\<rparr> = NVector (Vec3 (- 1) 0 0)"
proof -
  have p1: "NVector_ToPVector (NVector (Vec3 1 0 0)) \<lparr>ellps_a = 1, ellps_b = 1\<rparr>
              = PVector (Vec3 1 0 0)"
    by (simp add: NVector_ToPVector_def)
  have s: "sqrt (1 / 4) = 1 / 2"
    by (simp add: real_sqrt_divide)
  have r1: "PVector_ToNVector (PVector (Vec3 1 0 0)) \<lparr>ellps_a = 1, ellps_b = 1\<rparr>
              = NVector (Vec3 (- 1) 0 0)"
    by (simp add: PVector_ToNVector_def Let_def s)
  have p2: "NVector_ToPVector (NVector (Vec3 1 0 0)) \<lparr>ellps_a = 2, ellps_b = 1\<rparr>
              = PVector (Vec3 2 0 0)"
    by (simp add: NVector_ToPVector_def)
  have e2: "sqrt (1 - 1 * 1 / (2 * 2)) * sqrt (1 - 1 * 1 / (2 * 2)) = (3 / 4 :: real)"
    by simp
  have r2: "PVector_ToNVector (PVector (Vec3 2 0 0)) \<lparr>ellps_a = 2, ellps_b = 1\<rparr>
              = NVector (Vec3 (- 1) 0 0)"
    unfolding PVector_ToNVector_def Let_def
    apply (simp only: Ellipsoid.simps PVector.sel Vec3.sel e2)
    apply (simp add: real_sqrt_divide)
    done
  show ?thesis
    by (simp only: p1 p2 r1 r2)
qed

subsection \<open>Spherical distance\<close>

text \<open>
  Claim C7. For every n-vector \<open>nv\<close> and every radius \<open>R\<close>,
  \<open>SphericalDistance(nv, nv, R)\<close> is exactly 0; and for every pair \<open>a\<close>, \<open>b\<close> and every
  \<open>R\<close>, \<open>SphericalDistance(a, b, R) = SphericalDistance(b, a, R)\<close>.
\<close>

theorem SphericalDistance_identity_symmetry:
  "SphericalDistance nv nv R = 0
   \<and> SphericalDistance a b R = SphericalDistance b a R"
  by (simp add: SphericalDistance_def cross_self Magnitude_zero math_Atan2_zero_nonneg
      dot_self_nonneg Magnitude_cross_commute[of "nvVec3 a"] dot_commute[of "nvVec3 a"])

text \<open>
  Claim C10. For every pair of n-vectors \<open>a\<close>, \<open>b\<close> and every radius \<open>R \<ge> 0\<close>,
  \<open>SphericalDistance(a, b, R)\<close> lies in \<open>[0, pi R]\<close>: the magnitude of the cross product,
  the first argument of \<open>Atan2\<close>, is never negative, so the angle lies in \<open>[0, pi]\<close>
  before it is scaled by \<open>R\<close>.
\<close>

theorem SphericalDistance_range:
  assumes "0 \<le> R"
  shows "0 \<le> Magnitude (cross (nvVec3 a) (nvVec3 b))
       \<and> 0 \<le> math_Atan2 (Magnitude (cross (nvVec3 a) (nvVec3 b))) (dot (nvVec3 a) (nvVec3 b))
       \<and> math_Atan2 (Magnitude (cross (nvVec3 a) (nvVec3 b))) (dot (nvVec3 a) (nvVec3 b)) \<le> pi
       \<and> 0 \<le> SphericalDistance a b R
       \<and> SphericalDistance a b R \<le> pi * R"
proof -
  let ?t = "math_Atan2 (Magnitude (cross (nvVec3 a) (nvVec3 b))) (dot (nvVec3 a) (nvVec3 b))"
  have m: "0 \<le> Magnitude (cross (nvVec3 a) (nvVec3 b))"
    by (rule Magnitude_nonneg)
  have lo: "0 \<le> ?t" by (rule math_Atan2_range(1)[OF m])
  have hi: "?t \<le> pi" by (rule math_Atan2_range(2)[OF m])
  have d: "SphericalDistance a b R = ?t * R"
    by (simp add: SphericalDistance_def)
  have "0 \<le> ?t * R" using lo assms by simp
  moreover have "?t * R \<le> pi * R" using hi assms by (rule mult_right_mono)
  ultimately show ?thesis using m lo hi d by simp
qed

text \<open>A quarter of a great circle on the sphere of radius 2 has length \<open>pi\<close>.\<close>

theorem SphericalDistance_range_witness:
  "(0::real) \<le> 2
   \<and> SphericalDistance (NVector (Vec3 1 0 0)) (NVector (Vec3 0 1 0)) 2 = pi
   \<and> 0 \<le> SphericalDistance (NVector (Vec3 1 0 0)) (NVector (Vec3 0 1 0)) 2
   \<and> SphericalDistance (NVector (Vec3 1 0 0)) (NVector (Vec3 0 1 0)) 2 \<le> pi * 2"
proof -
  have h: "(0::real) \<le> 2" by simp
  have v: "SphericalDistance (NVector (Vec3 1 0 0)) (NVector (Vec3 0 1 0)) 2 = pi"
    by (simp add: SphericalDistance_def cross_def dot_def Magnitude_def math_Atan2_def)
  show ?thesis
    using SphericalDistance_range[OF h, of "NVector (Vec3 1 0 0)" "NVector (Vec3 0 1 0)"] h v
    by simp
qed

subsection \<open>Validation in NewLonLat\<close>

text \<open>
  Claim C8. \<open>NewLonLat(0, 90)\<close> succeeds, and \<open>ToNVector\<close> of its result is the n-vector
  \<open>(0, 0, 1)\<close>; \<open>NewLonLat(0, 91)\<close> fails with an \<open>InvalidLatitudeError\<close> that carries the
  degree value 91, not the radian value.
\<close>

theorem NewLonLat_validation_examples:
  "NewLonLat 0 90 = (\<lparr>Lon = 0, Lat = pi / 2\<rparr>, None)
   \<and> LonLat_ToNVector (fst (NewLonLat 0 90)) = NVector (Vec3 0 0 1)
   \<and> snd (NewLonLat 0 91) = Some (InvalidLatitudeError 91)"
proof -
  have q: "(0 * pi / 180 + pi) / (2 * pi) = 1 / 2" by simp
  have f: "\<lfloor>1 / 2 :: real\<rfloor> = 0" by simp
  have m: "math_Mod (0 * pi / 180 + pi) (2 * pi) = pi"
    unfolding math_Mod_def q using f by simp
  have a: "NewLonLat 0 90 = (\<lparr>Lon = 0, Lat = pi / 2\<rparr>, None)"
    unfolding NewLonLat_def Let_def m by simp
  have b: "LonLat_ToNVector \<lparr>Lon = 0, Lat = pi / 2\<rparr> = NVector (Vec3 0 0 1)"
    by (simp add: LonLat_ToNVector_def)
  have "(91::real) * pi / 180 > 0.5 * pi"
    using pi_gt_zero by simp
  then have c: "snd (NewLonLat 0 91) = Some (InvalidLatitudeError 91)"
    by (simp add: NewLonLat_def Let_def)
  show ?thesis using a b c by simp
qed

text \<open>
  Claim C9. When \<open>NewLonLat\<close> rejects a latitude, the \<open>LonLat\<close> it returns beside the
  \<open>InvalidLatitudeError\<close> is the zero value, longitude 0 and latitude 0: it never holds
  the normalised input longitude, and the only input that survives is the degree value
  of the latitude, in the error.
\<close>

theorem NewLonLat_error_returns_zero_value:
  "snd (NewLonLat londeg latdeg) \<noteq> None \<Longrightarrow>
     NewLonLat londeg latdeg = (\<lparr>Lon = 0, Lat = 0\<rparr>, Some (InvalidLatitudeError latdeg))"
  by (simp add: NewLonLat_def Let_def split: if_splits)

theorem NewLonLat_error_returns_zero_value_witness:
  "snd (NewLonLat 200 (- 100)) \<noteq> None
   \<and> NewLonLat 200 (- 100) = (\<lparr>Lon = 0, Lat = 0\<rparr>, Some (InvalidLatitudeError (- 100)))"
proof -
  have h: "snd (NewLonLat 200 (- 100)) \<noteq> None"
    unfolding NewLonLat_rejects_iff by simp
  show ?thesis
    using h NewLonLat_error_returns_zero_value[OF h] by simp
qed

subsection \<open>Interpolation endpoints\<close>

lemma round_half_even_of_int: "round_half_even (of_int k) = k"
  by (simp add: round_half_even_def)

lemma f64_round_0: "f64_round 0 = 0"
  by (simp add: f64_round_def)

lemma f64_round_exact:
  assumes "x \<noteq> 0" and "\<lfloor>log 2 \<bar>x\<bar>\<rfloor> = e"
    and "of_int k * 2 powr of_int (e - 52) = x"
  shows "f64_round x = x"
proof -
  have "x / 2 powr of_int (e - 52) = of_int k"
    using assms(3)[symmetric] by simp
  then have "round_half_even (x / 2 powr of_int (e - 52)) = k"
    by (simp only: round_half_even_of_int)
  then show ?thesis
    unfolding f64_round_def Let_def assms(2) using assms(1,3) by simp
qed

lemma round_half_even_ge_floor: "\<lfloor>m\<rfloor> \<le> round_half_even m"
  by (simp add: round_half_even_def Let_def)

lemma round_half_even_le_floor_Suc: "round_half_even m \<le> \<lfloor>m\<rfloor> + 1"
  by (simp add: round_half_even_def Let_def)

lemma round_half_even_lower:
  assumes "of_int N \<le> m"
  shows "N \<le> round_half_even m"
proof -
  have "N \<le> \<lfloor>m\<rfloor>" using assms by (simp add: le_floor_iff)
  then show ?thesis using round_half_even_ge_floor[of m] by linarith
qed

lemma round_half_even_upper:
  assumes "m \<le> of_int N"
  shows "round_half_even m \<le> N"
proof (cases "m = of_int N")
  case True
  then show ?thesis by (simp add: round_half_even_of_int)
next
  case False
  then have "m < of_int N" using assms by simp
  then have "\<lfloor>m\<rfloor> < N" by (simp add: floor_less_iff)
  then show ?thesis using round_half_even_le_floor_Suc[of m] by linarith
qed

lemma floor_log2_bounds:
  assumes "0 < x"
  shows "2 powr of_int \<lfloor>log 2 x\<rfloor> \<le> x" and "x < 2 powr (of_int \<lfloor>log 2 x\<rfloor> + 1)"
proof -
  have two: "(1::real) < 2" by simp
  have lo: "of_int \<lfloor>log 2 x\<rfloor> \<le> log 2 x" by (rule of_int_floor_le)
  have hi: "log 2 x < of_int \<lfloor>log 2 x\<rfloor> + 1" by linarith
  show "2 powr of_int \<lfloor>log 2 x\<rfloor> \<le> x"
    using le_log_iff[OF two assms] lo by blast
  show "x < 2 powr (of_int \<lfloor>log 2 x\<rfloor> + 1)"
    using log_less_iff[OF two assms] hi by blast
qed

lemma floor_log2_unique:
  assumes "0 < x" "2 powr of_int e \<le> x" "x < 2 powr (of_int e + 1)"
  shows "\<lfloor>log 2 x\<rfloor> = e"
proof -
  have two: "(1::real) < 2" by simp
  have "of_int e \<le> log 2 x" using le_log_iff[OF two assms(1)] assms(2) by blast
  moreover have "log 2 x < of_int e + 1" using log_less_iff[OF two assms(1)] assms(3) by blast
  ultimately show ?thesis by (simp add: floor_eq_iff)
qed

lemma two_powr_split_52: "(2::real) powr of_int E = 2 ^ 52 * 2 powr of_int (E - 52)"
proof -
  have "of_int E = 52 + (of_int (E - 52) :: real)" by simp
  then have "(2::real) powr of_int E = 2 powr (52 + of_int (E - 52))" by (rule arg_cong)
  also have "\<dots> = 2 powr 52 * 2 powr of_int (E - 52)" by (rule powr_add)
  also have "(2::real) powr 52 = 2 ^ 52" by (simp add: powr_numeral)
  finally show ?thesis .
qed

lemma two_powr_split_53: "(2::real) powr (of_int E + 1) = 2 ^ 53 * 2 powr of_int (E - 52)"
proof -
  have "of_int E + 1 = 53 + (of_int (E - 52) :: real)" by simp
  then have "(2::real) powr (of_int E + 1) = 2 powr (53 + of_int (E - 52))" by (rule arg_cong)
  also have "\<dots> = 2 powr 53 * 2 powr of_int (E - 52)" by (rule powr_add)
  also have "(2::real) powr 53 = 2 ^ 53" by (simp add: powr_numeral)
  finally show ?thesis .
qed

text \<open>The scaled significand of a non-zero number lies in \<open>[2^52, 2^53)\<close>.\<close>

lemma significand_bounds:
  assumes "x \<noteq> 0"
  defines "e \<equiv> \<lfloor>log 2 \<bar>x\<bar>\<rfloor> - 52"
  shows "2 ^ 52 \<le> \<bar>x / 2 powr of_int e\<bar>" and "\<bar>x / 2 powr of_int e\<bar> < 2 ^ 53"
proof -
  let ?E = "\<lfloor>log 2 \<bar>x\<bar>\<rfloor>"
  let ?s = "2 powr of_int (?E - 52) :: real"
  have pos: "0 < \<bar>x\<bar>" using assms(1) by simp
  have s: "0 < ?s" by simp
  have ab: "\<bar>x / ?s\<bar> = \<bar>x\<bar> / ?s" by simp
  have "2 ^ 52 * ?s \<le> \<bar>x\<bar>"
    using floor_log2_bounds(1)[OF pos] by (simp only: two_powr_split_52[of ?E])
  then have "2 ^ 52 \<le> \<bar>x\<bar> / ?s" using s by (simp only: pos_le_divide_eq)
  then show "2 ^ 52 \<le> \<bar>x / 2 powr of_int e\<bar>" unfolding e_def ab .
  have "\<bar>x\<bar> < 2 ^ 53 * ?s"
    using floor_log2_bounds(2)[OF pos] by (simp only: two_powr_split_53[of ?E])
  then have "\<bar>x\<bar> / ?s < 2 ^ 53" using s by (simp only: pos_divide_less_eq)
  then show "\<bar>x / 2 powr of_int e\<bar> < 2 ^ 53" unfolding e_def ab .
qed

lemma significand_rounds_within:
  assumes "2 ^ 52 \<le> \<bar>m\<bar>" "\<bar>m\<bar> < (2 ^ 53 :: real)"
  shows "2 ^ 52 \<le> \<bar>round_half_even m\<bar>" and "\<bar>round_half_even m\<bar> \<le> 2 ^ 53"
proof -
  have "2 ^ 52 \<le> \<bar>round_half_even m\<bar> \<and> \<bar>round_half_even m\<bar> \<le> 2 ^ 53"
  proof (cases "0 \<le> m")
    case True
    then have a: "of_int (2 ^ 52) \<le> m" and b: "m \<le> of_int (2 ^ 53)" using assms by simp_all
    have "2 ^ 52 \<le> round_half_even m" by (rule round_half_even_lower[OF a])
    moreover have "round_half_even m \<le> 2 ^ 53" by (rule round_half_even_upper[OF b])
    ultimately show ?thesis by simp
  next
    case False
    then have a: "m \<le> of_int (- (2 ^ 52))" and b: "of_int (- (2 ^ 53)) \<le> m"
      using assms by simp_all
    have "round_half_even m \<le> - (2 ^ 52)" by (rule round_half_even_upper[OF a])
    moreover have "- (2 ^ 53) \<le> round_half_even m" by (rule round_half_even_lower[OF b])
    ultimately show ?thesis by simp
  qed
  then show "2 ^ 52 \<le> \<bar>round_half_even m\<bar>" and "\<bar>round_half_even m\<bar> \<le> 2 ^ 53"
    by simp_all
qed

text \<open>
  Rounding lands on a representable number: rounding twice is rounding once. (When the
  significand rounds up to \<open>2^53\<close> the result is the next power of two.)
\<close>

lemma f64_round_idem: "f64_round (f64_round x) = f64_round x"
proof (cases "x = 0")
  case True
  then show ?thesis by (simp add: f64_round_def)
next
  case False
  define E where "E = \<lfloor>log 2 \<bar>x\<bar>\<rfloor>"
  define s :: real where "s = 2 powr of_int (E - 52)"
  define k where "k = round_half_even (x / s)"
  define y where "y = of_int k * s"
  have y: "f64_round x = y"
    using False by (simp add: f64_round_def Let_def E_def s_def k_def y_def)
  have s_pos: "0 < s" by (simp add: s_def)
  have mb: "2 ^ 52 \<le> \<bar>x / s\<bar>" "\<bar>x / s\<bar> < 2 ^ 53"
    unfolding s_def E_def by (rule significand_bounds[OF False])+
  have kb: "2 ^ 52 \<le> \<bar>k\<bar>" "\<bar>k\<bar> \<le> 2 ^ 53"
    unfolding k_def by (rule significand_rounds_within[OF mb])+
  have knz: "k \<noteq> 0" using kb(1) by auto
  have ynz: "y \<noteq> 0" using knz s_pos by (simp add: y_def)
  have ypos: "0 < \<bar>y\<bar>" using ynz by simp
  have absy: "\<bar>y\<bar> = of_int \<bar>k\<bar> * s" using s_pos by (simp add: y_def abs_mult)
  have lo: "2 powr of_int E \<le> \<bar>y\<bar>"
  proof -
    have "(2 ^ 52 :: real) \<le> of_int \<bar>k\<bar>" using kb(1) by (metis of_int_le_iff of_int_numeral of_int_power)
    then have "2 ^ 52 * s \<le> of_int \<bar>k\<bar> * s" using s_pos by (simp only: mult_le_cancel_right_pos)
    then show ?thesis unfolding absy two_powr_split_52[of E] s_def .
  qed
  have "f64_round y = y"
  proof (cases "\<bar>k\<bar> = 2 ^ 53")
    case False
    then have "\<bar>k\<bar> < 2 ^ 53" using kb(2) by simp
    then have "of_int \<bar>k\<bar> < (2 ^ 53 :: real)" by (metis of_int_less_iff of_int_numeral of_int_power)
    then have "of_int \<bar>k\<bar> * s < 2 ^ 53 * s" using s_pos by (simp only: mult_less_cancel_right_pos)
    then have hi: "\<bar>y\<bar> < 2 powr (of_int E + 1)"
      unfolding absy two_powr_split_53[of E] s_def .
    have fl: "\<lfloor>log 2 \<bar>y\<bar>\<rfloor> = E" by (rule floor_log2_unique[OF ypos lo hi])
    show ?thesis
      by (rule f64_round_exact[OF ynz fl, of k]) (simp add: y_def s_def)
  next
    case True
    have ay: "\<bar>y\<bar> = 2 powr (of_int E + 1)"
      unfolding absy True two_powr_split_53[of E] s_def by simp
    have e1: "of_int (E + 1) = (of_int E + 1 :: real)" by simp
    have lo1: "2 powr of_int (E + 1) \<le> \<bar>y\<bar>" unfolding ay e1 by simp
    have hi1: "\<bar>y\<bar> < 2 powr (of_int (E + 1) + 1)" unfolding ay e1 by simp
    have fl: "\<lfloor>log 2 \<bar>y\<bar>\<rfloor> = E + 1" by (rule floor_log2_unique[OF ypos lo1 hi1])
    have s2: "2 powr of_int (E + 1 - 52) = 2 * s"
    proof -
      have "of_int (E + 1 - 52) = (1 + of_int (E - 52) :: real)" by simp
      then have "(2::real) powr of_int (E + 1 - 52) = 2 powr (1 + of_int (E - 52))"
        by (rule arg_cong)
      also have "\<dots> = 2 powr 1 * 2 powr of_int (E - 52)" by (rule powr_add)
      finally show ?thesis by (simp add: s_def)
    qed
    have "even (2 ^ 53 :: int)" by simp
    then have "even \<bar>k\<bar>" by (simp only: True)
    then have "even k" by simp
    then have kk: "k = 2 * (k div 2)" by simp
    have "of_int (k div 2) * (2 * s) = of_int (2 * (k div 2)) * s" by simp
    also have "\<dots> = y" unfolding y_def using kk by simp
    finally have "of_int (k div 2) * 2 powr of_int (E + 1 - 52) = y" unfolding s2 .
    then show ?thesis by (rule f64_round_exact[OF ynz fl])
  qed
  then show ?thesis unfolding y .
qed

lemma is_f64_f64_round: "is_f64 (f64_round x)"
  by (simp add: is_f64_def f64_round_idem)

lemma two_powr_minus_52: "2 powr of_int (0 - 52) = (1 / 2 ^ 52 :: real)"
  by (simp add: powr_minus_divide)

lemma two_powr_minus_53: "2 powr of_int (- 1 - 52) = (1 / 2 ^ 53 :: real)"
  by (simp add: powr_minus_divide)

lemma f64_round_1: "f64_round 1 = 1"
proof (rule f64_round_exact[where e = 0 and k = "2 ^ 52"])
  show "(1::real) \<noteq> 0" by simp
  show "\<lfloor>log 2 \<bar>1::real\<bar>\<rfloor> = 0" by simp
  show "of_int (2 ^ 52) * 2 powr of_int (0 - 52) = (1::real)"
    unfolding two_powr_minus_52 by simp
qed

lemma f64_round_minus_1: "f64_round (- 1) = - 1"
proof (rule f64_round_exact[where e = 0 and k = "- (2 ^ 52)"])
  show "(- 1::real) \<noteq> 0" by simp
  show "\<lfloor>log 2 \<bar>- 1::real\<bar>\<rfloor> = 0" by simp
  show "of_int (- (2 ^ 52)) * 2 powr of_int (0 - 52) = (- 1::real)"
    unfolding two_powr_minus_52 by simp
qed

lemma floor_log_below_one:
  assumes "1 / 2 \<le> x" "x < (1::real)"
  shows "\<lfloor>log 2 x\<rfloor> = - 1"
proof -
  have pos: "0 < x" using assms by simp
  have "log 2 x < 0" using assms pos by simp
  moreover have "- 1 \<le> log 2 x"
    using assms pos by (simp add: le_log_iff powr_minus_divide)
  ultimately show ?thesis by (simp add: floor_eq_iff)
qed

text \<open>
  \<open>2\<^sup>-\<^sup>6\<^sup>0 - 1\<close> lies between the neighbours \<open>-1\<close> and \<open>-1 + 2\<^sup>-\<^sup>5\<^sup>3\<close>, much nearer
  to \<open>-1\<close>.
\<close>

lemma f64_round_near_minus_1: "f64_round (1 / 2 ^ 60 - 1) = - 1"
proof -
  let ?x = "1 / 2 ^ 60 - (1::real)"
  have nz: "?x \<noteq> 0" by simp
  have ab: "\<bar>?x\<bar> = 1 - 1 / 2 ^ 60" by simp
  have fl: "\<lfloor>log 2 \<bar>?x\<bar>\<rfloor> = - 1"
    unfolding ab by (rule floor_log_below_one) simp_all
  have m: "?x / (1 / 2 ^ 53) = - (2 ^ 53) + 1 / 2 ^ 7"
    by simp
  have f: "\<lfloor>- (2 ^ 53) + 1 / 2 ^ 7 :: real\<rfloor> = - (2 ^ 53)"
    by (simp add: floor_eq_iff)
  have r: "round_half_even (- (2 ^ 53) + 1 / 2 ^ 7) = - (2 ^ 53)"
    unfolding round_half_even_def f Let_def by simp
  have "f64_round ?x = of_int (round_half_even (?x / (1 / 2 ^ 53))) * (1 / 2 ^ 53)"
    unfolding f64_round_def Let_def fl two_powr_minus_53 using nz by simp
  also have "\<dots> = - 1" unfolding m r by simp
  finally show ?thesis .
qed

lemma is_f64_0: "is_f64 0"
  by (simp add: is_f64_def f64_round_0)

lemma is_f64_1: "is_f64 1"
  by (simp add: is_f64_def f64_round_1)

lemma is_f64_minus_1: "is_f64 (- 1)"
  by (simp add: is_f64_def f64_round_minus_1)

lemma is_f64_two_powr_minus_60: "is_f64 (1 / 2 ^ 60)"
  unfolding is_f64_def
proof (rule f64_round_exact[where e = "- 60" and k = "2 ^ 52"])
  show "(1 / 2 ^ 60 :: real) \<noteq> 0" by simp
  show "\<lfloor>log 2 \<bar>1 / 2 ^ 60 :: real\<bar>\<rfloor> = - 60"
  proof -
    have e: "(1 / 2 ^ 60 :: real) = 2 powr (- 60)"
      by (simp add: powr_minus_divide)
    have "log 2 (2 powr (- 60)) = (- 60 :: real)"
      by (rule log_powr_cancel) simp_all
    then have "\<lfloor>log 2 (2 powr (- 60) :: real)\<rfloor> = - 60"
      by simp
    then have "\<lfloor>log 2 (1 / 2 ^ 60 :: real)\<rfloor> = - 60"
      by (simp only: e)
    then show ?thesis by simp
  qed
  have "2 powr of_int (- 60 - 52) = (1 / 2 ^ 112 :: real)"
    by (simp add: powr_minus_divide)
  then show "of_int (2 ^ 52) * 2 powr of_int (- 60 - 52) = (1 / 2 ^ 60 :: real)"
    by simp
qed

lemma interpLinear_f64_at_0: "is_f64 y0 \<Longrightarrow> interpLinear_f64 0 0 1 y0 y1 = y0"
  by (simp add: interpLinear_f64_def f64_round_0 f64_round_1 is_f64_def)

lemma interpLinear_f64_at_1:
  assumes "is_f64 y1" "is_f64 (y1 - y0)"
  shows "interpLinear_f64 1 0 1 y0 y1 = y1"
  using assms by (simp add: interpLinear_f64_def f64_round_1 is_f64_def)

lemma interpLinear_f64_at_1_general:
  "interpLinear_f64 1 0 1 y0 y1 = f64_round (f64_round (y1 - y0) + y0)"
  by (simp add: interpLinear_f64_def f64_round_1 f64_round_idem)

lemma interpLinear_f64_loses_small: "interpLinear_f64 1 0 1 1 (1 / 2 ^ 60) = 0"
proof -
  have "interpLinear_f64 1 0 1 1 (1 / 2 ^ 60) = f64_round (f64_round (1 / 2 ^ 60 - 1) + 1)"
    by (rule interpLinear_f64_at_1_general)
  also have "\<dots> = f64_round (- 1 + 1)"
    by (simp only: f64_round_near_minus_1)
  also have "\<dots> = 0"
    by (simp add: f64_round_0)
  finally show ?thesis .
qed

text \<open>
  Claim C3, as amended. Under double-precision evaluation of
  \<open>(frac-0)/(1-0) * (b\<^sub>i - a\<^sub>i) + a\<^sub>i\<close>, for every pair of \<^verbatim>\<open>float64\<close> n-vectors:
  \<open>Interpolate(a, b, 0)\<close> equals \<open>a\<close> in every component; every component of
  \<open>Interpolate(a, b, 1)\<close> is \<open>b\<^sub>i - a\<^sub>i\<close> rounded, plus \<open>a\<^sub>i\<close>, rounded again;
  this equals \<open>b\<close> whenever each difference \<open>b\<^sub>i - a\<^sub>i\<close> is itself a
  \<^verbatim>\<open>float64\<close>, and need not equal \<open>b\<close> otherwise.
\<close>

theorem Interpolate_f64_endpoints:
  "(is_f64_vec (nvVec3 a) \<longrightarrow> Interpolate_f64 a b 0 = a)
   \<and> Interpolate_f64 a b 1
       = NVector (Vec3 (f64_round (f64_round (idx0 (nvVec3 b) - idx0 (nvVec3 a)) + idx0 (nvVec3 a)))
                       (f64_round (f64_round (idx1 (nvVec3 b) - idx1 (nvVec3 a)) + idx1 (nvVec3 a)))
                       (f64_round (f64_round (idx2 (nvVec3 b) - idx2 (nvVec3 a)) + idx2 (nvVec3 a))))
   \<and> (is_f64_vec (nvVec3 b) \<and> exact_difference (nvVec3 a) (nvVec3 b)
        \<longrightarrow> Interpolate_f64 a b 1 = b)"
proof (intro conjI impI)
  assume "is_f64_vec (nvVec3 a)"
  then have "Interpolate_f64 a b 0
               = NVector (Vec3 (idx0 (nvVec3 a)) (idx1 (nvVec3 a)) (idx2 (nvVec3 a)))"
    by (simp add: Interpolate_f64_def is_f64_vec_def interpLinear_f64_at_0)
  then show "Interpolate_f64 a b 0 = a" by simp
next
  show "Interpolate_f64 a b 1
       = NVector (Vec3 (f64_round (f64_round (idx0 (nvVec3 b) - idx0 (nvVec3 a)) + idx0 (nvVec3 a)))
                       (f64_round (f64_round (idx1 (nvVec3 b) - idx1 (nvVec3 a)) + idx1 (nvVec3 a)))
                       (f64_round (f64_round (idx2 (nvVec3 b) - idx2 (nvVec3 a)) + idx2 (nvVec3 a))))"
    by (simp only: Interpolate_f64_def interpLinear_f64_at_1_general)
next
  assume "is_f64_vec (nvVec3 b) \<and> exact_difference (nvVec3 a) (nvVec3 b)"
  then have "Interpolate_f64 a b 1
               = NVector (Vec3 (idx0 (nvVec3 b)) (idx1 (nvVec3 b)) (idx2 (nvVec3 b)))"
    by (simp add: Interpolate_f64_def is_f64_vec_def exact_difference_def
        interpLinear_f64_at_1)
  then show "Interpolate_f64 a b 1 = b" by simp
qed

theorem Interpolate_f64_endpoints_witness:
  "is_f64_vec (Vec3 1 0 0) \<and> is_f64_vec (Vec3 0 1 0)
   \<and> exact_difference (Vec3 1 0 0) (Vec3 0 1 0)
   \<and> Interpolate_f64 (NVector (Vec3 1 0 0)) (NVector (Vec3 0 1 0)) 0 = NVector (Vec3 1 0 0)
   \<and> Interpolate_f64 (NVector (Vec3 1 0 0)) (NVector (Vec3 0 1 0)) 1 = NVector (Vec3 0 1 0)"
proof -
  have a: "is_f64_vec (Vec3 1 0 0)" and b: "is_f64_vec (Vec3 0 1 0)"
    by (simp_all add: is_f64_vec_def is_f64_0 is_f64_1)
  have d: "exact_difference (Vec3 1 0 0) (Vec3 0 1 0)"
    by (simp add: exact_difference_def is_f64_0 is_f64_1 is_f64_minus_1)
  show ?thesis
    using Interpolate_f64_endpoints[of "NVector (Vec3 1 0 0)" "NVector (Vec3 0 1 0)"] a b d
    by (simp add: f64_round_0 f64_round_1 f64_round_minus_1)
qed

text \<open>
  The claim as stated fails at \<open>a = (1, 0, 0)\<close>, \<open>b = (2\<^sup>-\<^sup>6\<^sup>0, 1, 0)\<close>, both made of
  \<^verbatim>\<open>float64\<close> numbers: \<open>b\<^sub>0 - a\<^sub>0\<close> rounds to \<open>-1\<close>, and adding \<open>a\<^sub>0 = 1\<close> gives 0, so
  \<open>Interpolate(a, b, 1)\<close> is \<open>(0, 1, 0)\<close> and not \<open>b\<close>.
\<close>

theorem Interpolate_f64_at_1_counterexample:
  "is_f64_vec (Vec3 1 0 0) \<and> is_f64_vec (Vec3 (1 / 2 ^ 60) 1 0)
   \<and> Interpolate_f64 (NVector (Vec3 1 0 0)) (NVector (Vec3 (1 / 2 ^ 60) 1 0)) 1
      = NVector (Vec3 0 1 0)
   \<and> Interpolate_f64 (NVector (Vec3 1 0 0)) (NVector (Vec3 (1 / 2 ^ 60) 1 0)) 1
      \<noteq> NVector (Vec3 (1 / 2 ^ 60) 1 0)"
proof -
  have a: "is_f64_vec (Vec3 1 0 0)"
    by (simp add: is_f64_vec_def is_f64_0 is_f64_1)
  have b: "is_f64_vec (Vec3 (1 / 2 ^ 60) 1 0)"
    unfolding is_f64_vec_def Vec3.sel
    by (intro conjI is_f64_two_powr_minus_60 is_f64_1 is_f64_0)
  have y: "interpLinear_f64 1 0 1 0 1 = 1"
    by (simp add: interpLinear_f64_at_1_general f64_round_1)
  have z: "interpLinear_f64 1 0 1 0 0 = 0"
    by (simp add: interpLinear_f64_at_1_general f64_round_0)
  have v: "Interpolate_f64 (NVector (Vec3 1 0 0)) (NVector (Vec3 (1 / 2 ^ 60) 1 0)) 1
          = NVector (Vec3 0 1 0)"
    unfolding Interpolate_f64_def NVector.sel Vec3.sel
    by (simp only: interpLinear_f64_loses_small y z)
  have n: "NVector (Vec3 0 1 0) \<noteq> NVector (Vec3 (1 / 2 ^ 60) 1 0)"
    by simp
  show ?thesis
    using a b v n by (simp only: simp_thms)
qed

subsection \<open>The longitude renormalisation of ToLonLat next to pi/2\<close>

text \<open>
  Bounds on \<open>pi\<close> from Machin's formula and the alternating arctangent series: they
  place \<open>pi\<close> between \<open>fl(pi)\<close> and the midpoint to the next \<^verbatim>\<open>float64\<close>.
\<close>

lemma arctan_between_partial_sums:
  assumes "0 < x" "x \<le> 1"
  shows "arctan_partial x (2 * n) \<le> arctan x" and "arctan x \<le> arctan_partial x (2 * n + 1)"
proof -
  let ?a = "\<lambda>k. 1 / real (k * 2 + 1) * x ^ (k * 2 + 1)"
  have ax: "\<bar>x\<bar> \<le> 1" using assms by simp
  have pos: "0 < ?a 0" using assms by simp
  have "(\<Sum>i. (- 1) ^ i * ?a i) \<in> {\<Sum>i<2 * n. (- 1) ^ i * ?a i .. \<Sum>i<2 * n + 1. (- 1) ^ i * ?a i}"
    using summable_Leibniz(2)[OF zeroseq_arctan_series[OF ax] monoseq_arctan_series[OF ax]] pos
    by blast
  then show "arctan_partial x (2 * n) \<le> arctan x" and "arctan x \<le> arctan_partial x (2 * n + 1)"
    unfolding arctan_partial_def arctan_series[OF ax] by simp_all
qed

lemma arctan_partial_Suc:
  "arctan_partial x (Suc n) = arctan_partial x n + (- 1) ^ n * (1 / real (n * 2 + 1) * x ^ (n * 2 + 1))"
  by (simp add: arctan_partial_def)

lemma arctan_partial_0: "arctan_partial x 0 = 0"
  by (simp add: arctan_partial_def)

lemma pi_lower: "7074237752028440 / 2 ^ 51 < pi"
proof -
  have m: "pi = 16 * arctan (1 / 5) - 4 * arctan (1 / 239)"
    using machin by simp
  have a: "arctan_partial (1 / 5) (2 * 6) \<le> arctan (1 / 5)"
    by (rule arctan_between_partial_sums) simp_all
  have b: "arctan (1 / 239) \<le> arctan_partial (1 / 239) (2 * 1 + 1)"
    by (rule arctan_between_partial_sums) simp_all
  have "7074237752028440 / 2 ^ 51
          < 16 * arctan_partial (1 / 5) (2 * 6) - 4 * arctan_partial (1 / 239) (2 * 1 + 1)"
    by (simp add: eval_nat_numeral arctan_partial_Suc arctan_partial_0)
  also have "\<dots> \<le> 16 * arctan (1 / 5) - 4 * arctan (1 / 239)"
    using a b by linarith
  finally show ?thesis unfolding m .
qed

lemma pi_upper: "pi < 14148475504056881 / 2 ^ 52"
proof -
  have m: "pi = 16 * arctan (1 / 5) - 4 * arctan (1 / 239)"
    using machin by simp
  have a: "arctan (1 / 5) \<le> arctan_partial (1 / 5) (2 * 6 + 1)"
    by (rule arctan_between_partial_sums) simp_all
  have b: "arctan_partial (1 / 239) (2 * 2) \<le> arctan (1 / 239)"
    by (rule arctan_between_partial_sums) simp_all
  have "16 * arctan (1 / 5) - 4 * arctan (1 / 239)
          \<le> 16 * arctan_partial (1 / 5) (2 * 6 + 1) - 4 * arctan_partial (1 / 239) (2 * 2)"
    using a b by linarith
  also have "\<dots> < 14148475504056881 / 2 ^ 52"
    by (simp add: eval_nat_numeral arctan_partial_Suc arctan_partial_0)
  finally show ?thesis unfolding m .
qed

lemma round_half_even_below_half:
  assumes "of_int f \<le> m" "m < of_int f + 1 / 2"
  shows "round_half_even m = f"
proof -
  have "\<lfloor>m\<rfloor> = f" using assms by (simp add: floor_eq_iff)
  then show ?thesis using assms by (simp add: round_half_even_def Let_def)
qed

lemma round_half_even_tie_odd:
  assumes "m = of_int f + 1 / 2" "odd f"
  shows "round_half_even m = f + 1"
proof -
  have "\<lfloor>m\<rfloor> = f" using assms(1) by (simp add: floor_eq_iff)
  then show ?thesis using assms by (simp add: round_half_even_def Let_def)
qed

lemma pi_scaled: "7074237752028440 \<le> pi * 2 ^ 51" "pi * 2 ^ 51 < 7074237752028440 + 1 / 2"
proof -
  have "7074237752028440 / 2 ^ 51 \<le> pi"
    using pi_lower by (rule less_imp_le)
  then have "7074237752028440 / 2 ^ 51 * 2 ^ 51 \<le> pi * (2 ^ 51 :: real)"
    by (simp only: mult_le_cancel_right_pos zero_less_power zero_less_numeral)
  then show "7074237752028440 \<le> pi * 2 ^ 51" by simp
  have "pi * (2 ^ 51 :: real) < 14148475504056881 / 2 ^ 52 * 2 ^ 51"
    using pi_upper by (simp only: mult_less_cancel_right_pos zero_less_power zero_less_numeral)
  then show "pi * 2 ^ 51 < 7074237752028440 + 1 / 2" by simp
qed

lemma round_pi_scaled: "round_half_even (pi * 2 ^ 51) = 7074237752028440"
  by (rule round_half_even_below_half) (use pi_scaled in simp_all)

lemma f64_round_pi: "f64_round pi = 7074237752028440 / 2 ^ 51"
proof -
  have fl: "\<lfloor>log 2 \<bar>pi\<bar>\<rfloor> = 1"
  proof -
    have "\<lfloor>log 2 pi\<rfloor> = 1"
      by (rule floor_log2_unique) (use pi_ge_two pi_less_4 in simp_all)
    then show ?thesis by simp
  qed
  have p: "2 powr of_int (1 - 52) = (1 / 2 ^ 51 :: real)"
    by (simp add: powr_minus_divide)
  have "f64_round pi = of_int (round_half_even (pi / (1 / 2 ^ 51))) * (1 / 2 ^ 51)"
    unfolding f64_round_def Let_def fl p by simp
  also have "pi / (1 / 2 ^ 51) = pi * 2 ^ 51" by simp
  finally show ?thesis unfolding round_pi_scaled by simp
qed

lemma f64_round_half_pi: "f64_round (0.5 * pi) = 7074237752028440 / 2 ^ 52"
proof -
  have fl: "\<lfloor>log 2 \<bar>0.5 * pi\<bar>\<rfloor> = 0"
  proof -
    have "\<lfloor>log 2 (0.5 * pi)\<rfloor> = 0"
      by (rule floor_log2_unique) (use pi_ge_two pi_less_4 in simp_all)
    then show ?thesis by simp
  qed
  have p: "2 powr of_int (0 - 52) = (1 / 2 ^ 52 :: real)"
    by (rule two_powr_minus_52)
  have nz: "0.5 * pi \<noteq> 0" by simp
  have "f64_round (0.5 * pi) = of_int (round_half_even (0.5 * pi / (1 / 2 ^ 52))) * (1 / 2 ^ 52)"
    unfolding f64_round_def Let_def fl p using nz by simp
  also have "0.5 * pi / (1 / 2 ^ 52) = pi * 2 ^ 51" by simp
  finally show ?thesis unfolding round_pi_scaled by simp
qed

lemma floor_log2_between_1_2:
  assumes "1 \<le> x" "x < (2::real)"
  shows "\<lfloor>log 2 \<bar>x\<bar>\<rfloor> = 0"
proof -
  have "\<lfloor>log 2 x\<rfloor> = 0"
    by (rule floor_log2_unique) (use assms in simp_all)
  then show ?thesis using assms by simp
qed

lemma floor_log2_between_2_4:
  assumes "2 \<le> x" "x < (4::real)"
  shows "\<lfloor>log 2 \<bar>x\<bar>\<rfloor> = 1"
proof -
  have "\<lfloor>log 2 x\<rfloor> = 1"
    by (rule floor_log2_unique) (use assms in simp_all)
  then show ?thesis using assms by simp
qed

lemma is_f64_below_half_pi: "is_f64 (7074237752028439 / 2 ^ 52)"
  unfolding is_f64_def
proof (rule f64_round_exact[where e = 0 and k = 7074237752028439])
  show "(7074237752028439 / 2 ^ 52 :: real) \<noteq> 0" by simp
  show "\<lfloor>log 2 \<bar>7074237752028439 / 2 ^ 52 :: real\<bar>\<rfloor> = 0"
    by (rule floor_log2_between_1_2) simp_all
  show "of_int 7074237752028439 * 2 powr of_int (0 - 52) = (7074237752028439 / 2 ^ 52 :: real)"
    unfolding two_powr_minus_52 by simp
qed

lemma f64_round_minus_half_pi:
  "f64_round (- (7074237752028440 / 2 ^ 52)) = - (7074237752028440 / 2 ^ 52)"
proof (rule f64_round_exact[where e = 0 and k = "- 7074237752028440"])
  show "(- (7074237752028440 / 2 ^ 52) :: real) \<noteq> 0" by simp
  have "\<lfloor>log 2 \<bar>7074237752028440 / 2 ^ 52 :: real\<bar>\<rfloor> = 0"
    by (rule floor_log2_between_1_2) simp_all
  then show "\<lfloor>log 2 \<bar>- (7074237752028440 / 2 ^ 52) :: real\<bar>\<rfloor> = 0"
    by simp
  show "of_int (- 7074237752028440) * 2 powr of_int (0 - 52)
          = (- (7074237752028440 / 2 ^ 52) :: real)"
    unfolding two_powr_minus_52 by simp
qed

text \<open>The sum with the lower neighbour is an exact tie; the even significand is that of \<open>fl(pi)\<close>.\<close>

lemma sum_rounds_to_fl_pi:
  "f64_round (7074237752028439 / 2 ^ 52 + 7074237752028440 / 2 ^ 52)
     = 7074237752028440 / 2 ^ 51"
proof -
  let ?x = "14148475504056879 / 2 ^ 52 :: real"
  have x: "7074237752028439 / 2 ^ 52 + 7074237752028440 / 2 ^ 52 = ?x" by simp
  have nz: "?x \<noteq> 0" by simp
  have fl: "\<lfloor>log 2 \<bar>?x\<bar>\<rfloor> = 1"
    by (rule floor_log2_between_2_4) simp_all
  have p: "2 powr of_int (1 - 52) = (1 / 2 ^ 51 :: real)"
    by (simp add: powr_minus_divide)
  have m: "?x / (1 / 2 ^ 51) = of_int 7074237752028439 + 1 / 2" by simp
  have r: "round_half_even (of_int 7074237752028439 + 1 / 2) = 7074237752028439 + 1"
    by (rule round_half_even_tie_odd) simp_all
  have "f64_round ?x = of_int (round_half_even (?x / (1 / 2 ^ 51))) * (1 / 2 ^ 51)"
    unfolding f64_round_def Let_def fl p using nz by simp
  also have "\<dots> = 7074237752028440 / 2 ^ 51" unfolding m r by simp
  finally show ?thesis unfolding x .
qed

lemma sum_exact_fl_pi:
  "f64_round (7074237752028440 / 2 ^ 52 + 7074237752028440 / 2 ^ 52)
     = 7074237752028440 / 2 ^ 51"
proof -
  have x: "7074237752028440 / 2 ^ 52 + 7074237752028440 / 2 ^ 52
             = (7074237752028440 / 2 ^ 51 :: real)" by simp
  have "f64_round (7074237752028440 / 2 ^ 51) = 7074237752028440 / 2 ^ 51"
    using f64_round_idem[of pi] by (simp only: f64_round_pi)
  then show ?thesis unfolding x .
qed

lemma math_Mod_self: "y \<noteq> 0 \<Longrightarrow> math_Mod y y = 0"
  by (simp add: math_Mod_def)

lemma renormalise_from_fl_pi:
  assumes "f64_round (lon + 7074237752028440 / 2 ^ 52) = 7074237752028440 / 2 ^ 51"
  shows "ToLonLat_renormalise_f64 lon = - (7074237752028440 / 2 ^ 52)"
proof -
  have "ToLonLat_renormalise_f64 lon
          = f64_round (math_Mod (7074237752028440 / 2 ^ 51) (7074237752028440 / 2 ^ 51)
                       - 7074237752028440 / 2 ^ 52)"
    unfolding ToLonLat_renormalise_f64_def f64_round_pi f64_round_half_pi assms ..
  also have "\<dots> = f64_round (- (7074237752028440 / 2 ^ 52))"
    by (simp add: math_Mod_self)
  finally show ?thesis unfolding f64_round_minus_half_pi .
qed

text \<open>
  Claim C5. For every valid \<open>LonLat\<close> with longitude in \<open>(-pi/2, pi/2)\<close> and latitude
  in \<open>[-pi/2, pi/2]\<close>, \<open>ToLonLat(ToNVector(ll))\<close> recovers the longitude and the latitude
  within \<open>1e-9\<close> radians. The code does not do this for the longitudes next to \<open>pi/2\<close>.
  Take the \<^verbatim>\<open>float64\<close> just below \<open>fl(pi/2)\<close>, or \<open>fl(pi/2)\<close> itself (what
  \<^verbatim>\<open>NewLonLat(90, 0)\<close> holds), both below \<open>pi/2\<close>, at latitude 0. When
  \<^verbatim>\<open>math.Atan2\<close> gives back either of them, the renormalisation returns \<open>-fl(pi/2)\<close>:
  the sum with \<open>0.5*math.Pi\<close> rounds to \<open>fl(pi)\<close>, of which \<^verbatim>\<open>math.Mod\<close> by
  \<^verbatim>\<open>math.Pi\<close> leaves 0. The longitude comes back off by about \<open>pi\<close>.
\<close>

theorem ToLonLat_renormalise_f64_near_half_pi:
  "(let lon = 7074237752028439 / 2 ^ 52
    in is_f64 lon \<and> - (pi / 2) < lon \<and> lon < pi / 2
       \<and> ToLonLat_renormalise_f64 lon = - (7074237752028440 / 2 ^ 52)
       \<and> 1 / 10 ^ 9 < \<bar>ToLonLat_renormalise_f64 lon - lon\<bar>)
   \<and> (let lon = f64_round (0.5 * pi)
      in is_f64 lon \<and> - (pi / 2) < lon \<and> lon < pi / 2
         \<and> ToLonLat_renormalise_f64 lon = - lon
         \<and> 1 / 10 ^ 9 < \<bar>ToLonLat_renormalise_f64 lon - lon\<bar>)"
proof -
  have lo: "7074237752028440 / 2 ^ 52 < pi / 2" using pi_lower by simp
  have a1: "is_f64 (7074237752028439 / 2 ^ 52)" by (rule is_f64_below_half_pi)
  have a2: "- (pi / 2) < 7074237752028439 / 2 ^ 52" using pi_gt_zero by (simp add: less_le_trans[of _ 0])
  have a3: "7074237752028439 / 2 ^ 52 < pi / 2" using lo by simp
  have a4: "ToLonLat_renormalise_f64 (7074237752028439 / 2 ^ 52) = - (7074237752028440 / 2 ^ 52)"
    by (rule renormalise_from_fl_pi[OF sum_rounds_to_fl_pi])
  have a5: "1 / 10 ^ 9 < \<bar>ToLonLat_renormalise_f64 (7074237752028439 / 2 ^ 52)
                           - 7074237752028439 / 2 ^ 52\<bar>"
    unfolding a4 by simp
  have b1: "is_f64 (7074237752028440 / 2 ^ 52)"
    using is_f64_f64_round[of "0.5 * pi"] by (simp only: f64_round_half_pi)
  have b2: "- (pi / 2) < 7074237752028440 / 2 ^ 52" using pi_gt_zero by (simp add: less_le_trans[of _ 0])
  have b3: "7074237752028440 / 2 ^ 52 < pi / 2" using pi_lower by simp
  have b4: "ToLonLat_renormalise_f64 (7074237752028440 / 2 ^ 52) = - (7074237752028440 / 2 ^ 52)"
    by (rule renormalise_from_fl_pi[OF sum_exact_fl_pi])
  have b5: "1 / 10 ^ 9 < \<bar>ToLonLat_renormalise_f64 (7074237752028440 / 2 ^ 52)
                           - 7074237752028440 / 2 ^ 52\<bar>"
    unfolding b4 by simp
  show ?thesis
    unfolding Let_def f64_round_half_pi using a1 a2 a3 a4 a5 b1 b2 b3 b4 b5 by simp
qed

section \<open>Further properties\<close>

text \<open>
  In exact arithmetic \<open>Interpolate\<close> returns its first argument at \<open>frac = 0\<close> and its
  second at \<open>frac = 1\<close>.
\<close>

theorem Interpolate_exact_endpoints:
  "Interpolate nv nv2 0 = nv \<and> Interpolate nv nv2 1 = nv2"
  by (simp add: Interpolate_def interpLinear_def)


lemma math_Mod_small:
  assumes "0 \<le> x" "x < y"
  shows "math_Mod x y = x"
proof -
  have y: "0 < y" using assms by simp
  have "0 \<le> x / y" using assms y by simp
  moreover have "x / y < 1" using assms y by simp
  ultimately have "\<lfloor>x / y\<rfloor> = 0" by (simp add: floor_eq_iff)
  then show ?thesis using \<open>0 \<le> x / y\<close> by (simp add: math_Mod_def)
qed

lemma math_Atan2_sin_cos:
  assumes "- (pi / 2) < t" "t < pi / 2" "0 < c"
  shows "math_Atan2 (sin t * c) (cos t * c) = t"
proof -
  have ct: "0 < cos t" using assms by (simp add: cos_gt_zero_pi)
  then have pos: "0 < cos t * c" using assms by simp
  have "sin t * c / (cos t * c) = tan t"
    using assms by (simp add: tan_def)
  then have "math_Atan2 (sin t * c) (cos t * c) = arctan (tan t)"
    using pos by (simp add: math_Atan2_def)
  also have "\<dots> = t" using assms by (simp add: arctan_tan)
  finally show ?thesis .
qed

lemma factor_sq: "a * c * (a * c) + s * c * (s * c) = (c * c) * (a * a + s * (s::real))"
  by (simp add: algebra_simps)

text \<open>
  In exact arithmetic the round trip from a \<open>LonLat\<close> to an n-vector and back is the
  identity when the longitude and the latitude both lie in the open interval
  \<open>(-pi/2, pi/2)\<close>. (At a latitude of exactly \<open>pi/2\<close> the cosine is 0 and the
  longitude is lost; in \<^verbatim>\<open>float64\<close> no latitude is exactly \<open>pi/2\<close>.)
\<close>

theorem LonLat_roundtrip_exact:
  fixes ll :: LonLat
  assumes lon: "- (pi / 2) < Lon ll" "Lon ll < pi / 2"
    and lat: "- (pi / 2) < Lat ll" "Lat ll < pi / 2"
  shows "NVector_ToLonLat (LonLat_ToNVector ll) = ll"
proof -
  let ?lo = "Lon ll" and ?la = "Lat ll"
  have cl: "0 < cos ?la" using lat by (simp add: cos_gt_zero_pi)
  have one: "cos ?lo * cos ?lo + sin ?lo * sin ?lo = 1"
    using sin_cos_squared_add2[of ?lo] by (simp add: power2_eq_square)
  have "cos ?lo * cos ?la * (cos ?lo * cos ?la) + sin ?lo * cos ?la * (sin ?lo * cos ?la)
          = (cos ?la * cos ?la) * (cos ?lo * cos ?lo + sin ?lo * sin ?lo)"
    by (rule factor_sq)
  also have "\<dots> = cos ?la * cos ?la" by (simp only: one mult_1_right)
  finally have sq: "sqrt (cos ?lo * cos ?la * (cos ?lo * cos ?la)
                        + sin ?lo * cos ?la * (sin ?lo * cos ?la)) = cos ?la"
    using cl by simp
  have la: "math_Atan2 (sin ?la) (cos ?la) = ?la"
    using math_Atan2_sin_cos[OF lat, of 1] by simp
  have lo: "math_Atan2 (sin ?lo * cos ?la) (cos ?lo * cos ?la) = ?lo"
    by (rule math_Atan2_sin_cos[OF lon cl])
  have md: "math_Mod (?lo + 0.5 * pi) pi = ?lo + 0.5 * pi"
    by (rule math_Mod_small) (use lon in simp_all)
  show ?thesis
    unfolding NVector_ToLonLat_def LonLat_ToNVector_def Let_def NVector.sel Vec3.sel sq la lo md
    by simp
qed

theorem LonLat_roundtrip_exact_witness:
  "- (pi / 2) < Lon \<lparr>Lon = 1 / 2, Lat = - (1 / 2)\<rparr> \<and> Lon \<lparr>Lon = 1 / 2, Lat = - (1 / 2)\<rparr> < pi / 2
   \<and> - (pi / 2) < Lat \<lparr>Lon = 1 / 2, Lat = - (1 / 2)\<rparr> \<and> Lat \<lparr>Lon = 1 / 2, Lat = - (1 / 2)\<rparr> < pi / 2
   \<and> NVector_ToLonLat (LonLat_ToNVector \<lparr>Lon = 1 / 2, Lat = - (1 / 2)\<rparr>) = \<lparr>Lon = 1 / 2, Lat = - (1 / 2)\<rparr>"
proof -
  have a: "- (pi / 2) < Lon \<lparr>Lon = 1 / 2, Lat = - (1 / 2)\<rparr>" "Lon \<lparr>Lon = 1 / 2, Lat = - (1 / 2)\<rparr> < pi / 2"
    using pi_ge_two by simp_all
  have b: "- (pi / 2) < Lat \<lparr>Lon = 1 / 2, Lat = - (1 / 2)\<rparr>" "Lat \<lparr>Lon = 1 / 2, Lat = - (1 / 2)\<rparr> < pi / 2"
    using pi_ge_two by simp_all
  show ?thesis
    using LonLat_roundtrip_exact[OF a b] a b by (simp only: simp_thms)
qed

lemma math_Mod_nonneg_range:
  assumes "0 \<le> x" "0 < y"
  shows "0 \<le> math_Mod x y" and "math_Mod x y < y"
proof -
  have q: "0 \<le> x / y" using assms by simp
  have m: "math_Mod x y = x - y * of_int \<lfloor>x / y\<rfloor>"
    using q by (simp add: math_Mod_def)
  have "of_int \<lfloor>x / y\<rfloor> * y \<le> x"
    using assms(2) by (simp add: pos_le_divide_eq[symmetric])
  then show "0 \<le> math_Mod x y" unfolding m by (simp add: mult.commute)
  have "x / y < of_int \<lfloor>x / y\<rfloor> + 1" by linarith
  then have "x < (of_int \<lfloor>x / y\<rfloor> + 1) * y"
    using assms(2) by (simp only: pos_divide_less_eq)
  then show "math_Mod x y < y" unfolding m by (simp add: algebra_simps)
qed

lemma math_Mod_neg_range:
  assumes "x < 0" "0 < y"
  shows "- y < math_Mod x y" and "math_Mod x y \<le> 0"
proof -
  have q: "\<not> 0 \<le> x / y" using assms by (simp add: divide_less_0_iff not_le)
  have m: "math_Mod x y = x - y * of_int \<lceil>x / y\<rceil>"
    using q by (simp add: math_Mod_def)
  have "x \<le> of_int \<lceil>x / y\<rceil> * y"
    using assms(2) by (simp add: pos_divide_le_eq[symmetric])
  then show "math_Mod x y \<le> 0" unfolding m by (simp add: mult.commute)
  have "of_int \<lceil>x / y\<rceil> - 1 < x / y" by linarith
  then have "(of_int \<lceil>x / y\<rceil> - 1) * y < x"
    using assms(2) by (simp only: pos_less_divide_eq)
  then show "- y < math_Mod x y" unfolding m by (simp add: algebra_simps)
qed

lemma NewLonLat_accepted_Lon:
  "snd (NewLonLat londeg latdeg) = None \<Longrightarrow>
     Lon (fst (NewLonLat londeg latdeg)) = math_Mod (londeg * pi / 180 + pi) (2 * pi) - pi"
  by (simp add: NewLonLat_def Let_def split: if_splits)

lemma lon_shift_sign: "(0 \<le> londeg * pi / 180 + pi) = (- 180 \<le> londeg)"
proof -
  have e: "londeg * pi / 180 + pi = pi * ((londeg + 180) / 180)"
    by (simp add: algebra_simps)
  have "(0 \<le> pi * ((londeg + 180) / 180)) = (0 \<le> (londeg + 180) / 180)"
    using pi_gt_zero by (simp add: zero_le_mult_iff not_le[symmetric] less_imp_le)
  also have "\<dots> = (- 180 \<le> londeg)" by auto
  finally show ?thesis by (simp only: e)
qed

text \<open>
  Where the normalisation of \<open>NewLonLat\<close> works and where it does not: an accepted
  input with \<open>lonDeg \<ge> -180\<close> gets a longitude in \<open>[-pi, pi)\<close>; one with
  \<open>lonDeg < -180\<close> gets a longitude in \<open>(-3 pi, -pi]\<close>.
\<close>

theorem NewLonLat_longitude_range:
  "(- 180 \<le> londeg \<and> snd (NewLonLat londeg latdeg) = None
      \<longrightarrow> - pi \<le> Lon (fst (NewLonLat londeg latdeg))
        \<and> Lon (fst (NewLonLat londeg latdeg)) < pi)
   \<and> (londeg < - 180 \<and> snd (NewLonLat londeg latdeg) = None
      \<longrightarrow> - (3 * pi) < Lon (fst (NewLonLat londeg latdeg))
        \<and> Lon (fst (NewLonLat londeg latdeg)) \<le> - pi)"
proof (intro conjI impI)
  assume h: "- 180 \<le> londeg \<and> snd (NewLonLat londeg latdeg) = None"
  then have x: "0 \<le> londeg * pi / 180 + pi" by (simp only: lon_shift_sign)
  have y: "0 < 2 * pi" using pi_gt_zero by simp
  from math_Mod_nonneg_range[OF x y] h
  show "- pi \<le> Lon (fst (NewLonLat londeg latdeg))"
    and "Lon (fst (NewLonLat londeg latdeg)) < pi"
    by (simp_all add: NewLonLat_accepted_Lon)
next
  assume h: "londeg < - 180 \<and> snd (NewLonLat londeg latdeg) = None"
  then have "\<not> 0 \<le> londeg * pi / 180 + pi" by (simp only: lon_shift_sign) simp
  then have x: "londeg * pi / 180 + pi < 0" by simp
  have y: "0 < 2 * pi" using pi_gt_zero by simp
  from math_Mod_neg_range[OF x y] h
  show "- (3 * pi) < Lon (fst (NewLonLat londeg latdeg))"
    and "Lon (fst (NewLonLat londeg latdeg)) \<le> - pi"
    by (simp_all add: NewLonLat_accepted_Lon)
qed

lemma NewLonLat_accepts_iff:
  "(snd (NewLonLat londeg latdeg) = None) = (- 90 \<le> latdeg \<and> latdeg \<le> 90)"
  using NewLonLat_rejects_iff[of londeg latdeg] by auto

theorem NewLonLat_longitude_range_witness:
  "((- 180::real) \<le> 190 \<and> snd (NewLonLat 190 0) = None)
   \<and> - pi \<le> Lon (fst (NewLonLat 190 0)) \<and> Lon (fst (NewLonLat 190 0)) < pi
   \<and> ((- 190::real) < - 180 \<and> snd (NewLonLat (- 190) 0) = None)
   \<and> - (3 * pi) < Lon (fst (NewLonLat (- 190) 0)) \<and> Lon (fst (NewLonLat (- 190) 0)) \<le> - pi"
proof -
  have a: "(- 180::real) \<le> 190 \<and> snd (NewLonLat 190 0) = None"
    by (simp add: NewLonLat_accepts_iff)
  have b: "(- 190::real) < - 180 \<and> snd (NewLonLat (- 190) 0) = None"
    by (simp add: NewLonLat_accepts_iff)
  show ?thesis
    using NewLonLat_longitude_range[of 190 0] NewLonLat_longitude_range[of "- 190" 0] a b
    by simp
qed

lemma ToPVector_sphere:
  assumes R: "0 < R" and unit: "dot v v = 1"
  shows "NVector_ToPVector (NVector v) \<lparr>ellps_a = R, ellps_b = R\<rparr>
           = PVector (Vec3 (R * idx0 v) (R * idx1 v) (R * idx2 v))"
proof -
  have "idx2 v * idx2 v + idx1 v * idx1 v + idx0 v * idx0 v = dot v v"
    by (simp add: dot_def)
  then have s: "sqrt (idx2 v * idx2 v + idx1 v * idx1 v + idx0 v * idx0 v) = 1"
    using unit by simp
  show ?thesis
    using R by (simp add: NVector_ToPVector_def Let_def s)
qed

lemma PVector_ToNVector_steps:
  assumes "eccen = sqrt (1 - b * b / (a * a))"
    and "eccen2 = eccen * eccen"
    and "eccen4 = eccen2 * eccen2"
    and "a2 = a * a"
    and "q = (1 - eccen2) / a2 * pz * pz"
    and "p = (py * py + px * px) / a2"
    and "r = (p + q - eccen4) / 6"
    and "s = eccen4 * p * q / (4 * r ^ 3)"
    and "t = root 3 (1 + s + sqrt (s * (2 + s)))"
    and "u = r * (1 + t + 1 / t)"
    and "v = sqrt (u * u + eccen4 * q)"
    and "w = 0.5 * eccen2 * (u + v - q) / v"
    and "k = sqrt (u + v + w * w) - w"
    and "d = k * sqrt (py * py + px * px) / (k + eccen2)"
    and "coeff = 1 / sqrt (d * d + pz * pz)"
    and "kke2 = k / (k + eccen2)"
  shows "PVector_ToNVector (PVector (Vec3 px py pz)) \<lparr>ellps_a = a, ellps_b = b\<rparr>
           = NVector (Vec3 (- coeff * kke2 * px) (- coeff * kke2 * py) (coeff * pz))"
  unfolding assms PVector_ToNVector_def Let_def by simp

lemma ToNVector_sphere:
  assumes R: "0 < R" and unit: "x * x + y * y + z * z = 1"
  shows "PVector_ToNVector (PVector (Vec3 (R * x) (R * y) (R * z))) \<lparr>ellps_a = R, ellps_b = R\<rparr>
           = NVector (Vec3 (- x) (- y) z)"
proof -
  have pl: "R * y * (R * y) + R * x * (R * x) = (R * R) * (y * y + x * x)"
    by (simp add: algebra_simps)
  have dd: "sqrt (R * y * (R * y) + R * x * (R * x)) * sqrt (R * y * (R * y) + R * x * (R * x))
              + R * z * (R * z) = R * R"
  proof -
    have "0 \<le> R * y * (R * y) + R * x * (R * x)" by simp
    then have "sqrt (R * y * (R * y) + R * x * (R * x)) * sqrt (R * y * (R * y) + R * x * (R * x))
                 = R * y * (R * y) + R * x * (R * x)"
      by simp
    moreover have "R * y * (R * y) + R * x * (R * x) + R * z * (R * z)
                     = (R * R) * (x * x + y * y + z * z)"
      by (simp add: algebra_simps)
    ultimately show ?thesis using unit by simp
  qed
  have "PVector_ToNVector (PVector (Vec3 (R * x) (R * y) (R * z))) \<lparr>ellps_a = R, ellps_b = R\<rparr>
          = NVector (Vec3 (- (1 / R) * 1 * (R * x)) (- (1 / R) * 1 * (R * y)) ((1 / R) * (R * z)))"
  proof (rule PVector_ToNVector_steps[where eccen = 0 and ?eccen2.0 = 0 and ?eccen4.0 = 0
        and ?a2.0 = "R * R" and q = "z * z" and p = "y * y + x * x" and r = "1 / 6" and s = 0
        and t = 1 and u = "1 / 2" and v = "1 / 2" and w = 0 and k = 1
        and d = "sqrt (R * y * (R * y) + R * x * (R * x))"])
    show "0 = sqrt (1 - R * R / (R * R))" using R by simp
    show "(0::real) = 0 * 0" by simp
    show "(0::real) = 0 * 0" by simp
    show "R * R = R * R" by simp
    show "z * z = (1 - 0) / (R * R) * (R * z) * (R * z)" using R by simp
    show "y * y + x * x = (R * y * (R * y) + R * x * (R * x)) / (R * R)"
      unfolding pl using R by simp
    show "1 / 6 = (y * y + x * x + z * z - 0) / 6" using unit by (simp add: algebra_simps)
    show "0 = 0 * (y * y + x * x) * (z * z) / (4 * (1 / 6) ^ 3)" by simp
    show "1 = root 3 (1 + 0 + sqrt (0 * (2 + 0)))" by simp
    show "1 / 2 = 1 / 6 * (1 + 1 + 1 / (1::real))" by simp
    show "1 / 2 = sqrt (1 / 2 * (1 / 2) + 0 * (z * z))" by (simp add: real_sqrt_divide)
    show "0 = 0.5 * 0 * (1 / 2 + 1 / 2 - z * z) / (1 / 2)" by simp
    show "1 = sqrt (1 / 2 + 1 / 2 + 0 * 0) - (0::real)" by simp
    show "sqrt (R * y * (R * y) + R * x * (R * x))
            = 1 * sqrt (R * y * (R * y) + R * x * (R * x)) / (1 + 0)" by simp
    show "1 / R = 1 / sqrt (sqrt (R * y * (R * y) + R * x * (R * x))
                             * sqrt (R * y * (R * y) + R * x * (R * x)) + R * z * (R * z))"
      unfolding dd using R by simp
    show "1 = 1 / (1 + (0::real))" by simp
  qed
  also have "\<dots> = NVector (Vec3 (- x) (- y) z)" using R by simp
  finally show ?thesis .
qed

text \<open>
  On every sphere (\<open>a = b = R > 0\<close>) the round trip from a unit n-vector to a p-vector
  and back negates the first two components.
\<close>

theorem PVector_roundtrip_on_sphere:
  assumes "0 < R" and "dot v v = 1"
  shows "PVector_ToNVector (NVector_ToPVector (NVector v) \<lparr>ellps_a = R, ellps_b = R\<rparr>)
           \<lparr>ellps_a = R, ellps_b = R\<rparr>
         = NVector (Vec3 (- idx0 v) (- idx1 v) (idx2 v))"
proof -
  have "idx0 v * idx0 v + idx1 v * idx1 v + idx2 v * idx2 v = 1"
    using assms(2) by (simp add: dot_def)
  then show ?thesis
    unfolding ToPVector_sphere[OF assms] by (rule ToNVector_sphere[OF assms(1)])
qed

theorem PVector_roundtrip_on_sphere_witness:
  "(0::real) < 6371 \<and> dot (Vec3 0 1 0) (Vec3 0 1 0) = 1
   \<and> PVector_ToNVector (NVector_ToPVector (NVector (Vec3 0 1 0)) \<lparr>ellps_a = 6371, ellps_b = 6371\<rparr>)
           \<lparr>ellps_a = 6371, ellps_b = 6371\<rparr>
         = NVector (Vec3 0 (- 1) 0)"
proof -
  have r: "(0::real) < 6371" by simp
  have u: "dot (Vec3 0 1 0) (Vec3 0 1 0) = 1" by (simp add: dot_def)
  show ?thesis using PVector_roundtrip_on_sphere[OF r u] r u by simp
qed

end
